theory Spec2Isabelle
  imports Complex_Main
begin

section \<open>Data model\<close>

text \<open>
  The application keeps its state in a relational store reached through Prisma. The model
  is a record of tables, each a list of rows in insertion order. Identifiers and codes
  are strings. JavaScript numbers that hold amounts of money are doubles; they are
  idealised as exact reals. The comparison of a register's running balance with its
  replayed log is proved from the two computations performing the same operations in the
  same order, without a law of addition. Timestamps are milliseconds since the epoch. Values the environment supplies
  (a generated row id, the reading of the clock by \<^verbatim>\<open>new Date()\<close> or by the
  column default \<^verbatim>\<open>CURRENT_TIMESTAMP\<close>) are explicit arguments.
\<close>

type_synonym ident = string
type_synonym money = real
type_synonym time = nat

datatype error = Error string | TypeError string

datatype AccountType = ASSET | LIABILITY | EQUITY | REVENUE | EXPENSE

record Account =
  a_id :: ident
  a_code :: string
  a_name :: string
  a_type :: AccountType
  a_parentId :: "ident option"
  a_isActive :: bool

record JournalEntry =
  je_id :: ident
  je_date :: time
  je_description :: string
  je_debitAccountId :: ident
  je_creditAccountId :: ident
  je_amount :: money
  je_userId :: ident

datatype CashMovementType = OPENING | SALE | RETURN | DEPOSIT | WITHDRAWAL | CLOSING

record CashRegister =
  cr_id :: ident
  cr_name :: string
  cr_isOpen :: bool
  cr_openingBalance :: money
  cr_currentBalance :: money
  cr_openedAt :: "time option"
  cr_closedAt :: "time option"
  cr_openedById :: "ident option"
  cr_closedById :: "ident option"

record CashMovement =
  cm_id :: ident
  cm_cashRegisterId :: ident
  cm_type :: CashMovementType
  cm_amount :: money
  cm_description :: "string option"
  cm_reference :: "string option"
  cm_userId :: ident
  cm_createdAt :: time

record Product =
  pr_id :: ident
  pr_name :: string
  pr_sku :: string
  pr_barcode :: "string option"
  pr_price :: money
  pr_stock :: int
  pr_isActive :: bool

record ProcessedItem =
  pi_productId :: ident
  pi_quantity :: int
  pi_unitPrice :: money
  pi_total :: money

record Sale =
  sale_id :: ident
  sale_customerId :: "ident option"
  sale_userId :: ident
  sale_total :: money
  sale_tax :: money
  sale_discount :: money
  sale_items :: "ProcessedItem list"

record db =
  users :: "ident list"
  accounts :: "Account list"
  journalEntries :: "JournalEntry list"
  cashRegisters :: "CashRegister list"
  cashMovements :: "CashMovement list"
  customers :: "ident list"
  products :: "Product list"
  sales :: "Sale list"

definition empty_db :: db where
  "empty_db = \<lparr>users = [], accounts = [], journalEntries = [],
                cashRegisters = [], cashMovements = [],
                customers = [], products = [], sales = []\<rparr>"

section \<open>Account registry: accountModel.js\<close>

text \<open>\<^verbatim>\<open>findById\<close>: \<^verbatim>\<open>prisma.account.findUnique({ where: { id } })\<close>, null when absent.\<close>

definition accountModel_findById :: "db \<Rightarrow> ident \<Rightarrow> Account option" where
  "accountModel_findById s accountId = find (\<lambda>a. a_id a = accountId) (accounts s)"

text \<open>
  A JavaScript value that can reach \<^verbatim>\<open>findByCode\<close>: a string, or a member that an
  object literal inherits from \<^verbatim>\<open>Object.prototype\<close> (a function or the prototype
  object itself: truthy, and not a string).
\<close>

datatype js_value = JsString string | JsInherited string

text \<open>
  \<^verbatim>\<open>findByCode\<close>: \<^verbatim>\<open>prisma.account.findUnique({ where: { code } })\<close> inside
  try/catch. Prisma rejects a \<^verbatim>\<open>code\<close> that is not a string; the catch rethrows.
\<close>

definition accountModel_findByCode :: "db \<Rightarrow> js_value \<Rightarrow> error + Account option" where
  "accountModel_findByCode s c =
     (case c of
        JsString str \<Rightarrow> Inr (find (\<lambda>a. a_code a = str) (accounts s))
      | JsInherited k \<Rightarrow> Inl (Error ''Failed to find account by code''))"

text \<open>
  \<^verbatim>\<open>findAllActive\<close>: the active rows, \<^verbatim>\<open>orderBy: [{ type: 'asc' }, { code: 'asc' }]\<close>.
  The enum sorts in the order of its declaration in the migration; codes are compared
  character by character, by code point.
\<close>

fun type_rank :: "AccountType \<Rightarrow> nat" where
  "type_rank ASSET = 0"
| "type_rank LIABILITY = 1"
| "type_rank EQUITY = 2"
| "type_rank REVENUE = 3"
| "type_rank EXPENSE = 4"

fun code_le :: "string \<Rightarrow> string \<Rightarrow> bool" where
  "code_le [] ys = True"
| "code_le (x # xs) [] = False"
| "code_le (x # xs) (y # ys) =
     ((of_char x :: nat) < of_char y \<or> (x = y \<and> code_le xs ys))"

definition account_le :: "Account \<Rightarrow> Account \<Rightarrow> bool" where
  "account_le a b =
     (type_rank (a_type a) < type_rank (a_type b)
      \<or> (a_type a = a_type b \<and> code_le (a_code a) (a_code b)))"

fun insert_ordered :: "Account \<Rightarrow> Account list \<Rightarrow> Account list" where
  "insert_ordered a [] = [a]"
| "insert_ordered a (b # bs) =
     (if account_le a b then a # b # bs else b # insert_ordered a bs)"

definition order_by_type_code :: "Account list \<Rightarrow> Account list" where
  "order_by_type_code as = foldr insert_ordered as []"

definition accountModel_findAllActive :: "db \<Rightarrow> Account list" where
  "accountModel_findAllActive s = order_by_type_code (filter a_isActive (accounts s))"

text \<open>
  \<^verbatim>\<open>getChildren\<close>: rows with this \<^verbatim>\<open>parentId\<close> and \<^verbatim>\<open>isActive: true\<close>. The caller
  reads the length of the result only, so its \<^verbatim>\<open>orderBy\<close> is left out.
\<close>

definition accountModel_getChildren :: "db \<Rightarrow> ident \<Rightarrow> Account list" where
  "accountModel_getChildren s parentId =
     filter (\<lambda>a. a_parentId a = Some parentId \<and> a_isActive a) (accounts s)"

definition accountModel_hasJournalEntries :: "db \<Rightarrow> ident \<Rightarrow> bool" where
  "accountModel_hasJournalEntries s accountId =
     (let debitCount = length (filter (\<lambda>e. je_debitAccountId e = accountId) (journalEntries s));
          creditCount = length (filter (\<lambda>e. je_creditAccountId e = accountId) (journalEntries s))
      in debitCount + creditCount > 0)"

text \<open>
  \<^verbatim>\<open>deleteById\<close>: the soft delete, \<^verbatim>\<open>update({ where: { id }, data: { isActive: false } })\<close>;
  Prisma's P2025 (no such row) becomes \<^verbatim>\<open>Account not found\<close>.
\<close>

definition accountModel_deleteById :: "db \<Rightarrow> ident \<Rightarrow> (error + Account) \<times> db" where
  "accountModel_deleteById s accountId =
     (case accountModel_findById s accountId of
        None \<Rightarrow> (Inl (Error ''Account not found''), s)
      | Some a \<Rightarrow>
          (Inr (a\<lparr>a_isActive := False\<rparr>),
           s\<lparr>accounts := map (\<lambda>x. if a_id x = accountId then x\<lparr>a_isActive := False\<rparr> else x)
                              (accounts s)\<rparr>))"

text \<open>The date filter of \<^verbatim>\<open>calculateBalance\<close>: \<^verbatim>\<open>gte\<close> and \<^verbatim>\<open>lte\<close>, each only when given.\<close>

definition dateFilter :: "time option \<Rightarrow> time option \<Rightarrow> time \<Rightarrow> bool" where
  "dateFilter startDate endDate d =
     ((case startDate of None \<Rightarrow> True | Some lo \<Rightarrow> lo \<le> d) \<and>
      (case endDate of None \<Rightarrow> True | Some hi \<Rightarrow> d \<le> hi))"

record Balance =
  debit :: money
  credit :: money
  balance :: money

definition accountModel_calculateBalance ::
    "db \<Rightarrow> ident \<Rightarrow> time option \<Rightarrow> time option \<Rightarrow> Balance" where
  "accountModel_calculateBalance s accountId startDate endDate =
     (let debitEntries = filter (\<lambda>e. je_debitAccountId e = accountId \<and>
                                      dateFilter startDate endDate (je_date e)) (journalEntries s);
          creditEntries = filter (\<lambda>e. je_creditAccountId e = accountId \<and>
                                       dateFilter startDate endDate (je_date e)) (journalEntries s);
          totalDebit = foldl (\<lambda>sum entry. sum + je_amount entry) 0 debitEntries;
          totalCredit = foldl (\<lambda>sum entry. sum + je_amount entry) 0 creditEntries
      in \<lparr>debit = totalDebit, credit = totalCredit, balance = totalDebit - totalCredit\<rparr>)"


text \<open>
  \<^verbatim>\<open>create\<close>: \<^verbatim>\<open>prisma.account.create({ data })\<close>. The store enforces the primary
  key, the unique index on \<^verbatim>\<open>code\<close> (P2002) and the foreign key of \<^verbatim>\<open>parentId\<close>.
\<close>

record AccountData =
  d_code :: string
  d_name :: string
  d_type :: AccountType
  d_parentId :: "ident option"
  d_isActive :: "bool option"

definition accountModel_create :: "db \<Rightarrow> AccountData \<Rightarrow> ident \<Rightarrow> (error + Account) \<times> db" where
  "accountModel_create s accountData newId =
     (if find (\<lambda>a. a_code a = d_code accountData) (accounts s) \<noteq> None
      then (Inl (Error ''Account with this code already exists''), s)
      else if accountModel_findById s newId \<noteq> None
        \<or> (case d_parentId accountData of None \<Rightarrow> False
            | Some p \<Rightarrow> accountModel_findById s p = None)
      then (Inl (Error ''Failed to create account''), s)
      else
        (let account = \<lparr>a_id = newId, a_code = d_code accountData, a_name = d_name accountData,
                        a_type = d_type accountData, a_parentId = d_parentId accountData,
                        a_isActive = (case d_isActive accountData of None \<Rightarrow> True | Some b \<Rightarrow> b)\<rparr>
         in (Inr account, s\<lparr>accounts := accounts s @ [account]\<rparr>)))"

text \<open>
  The body of an update request: every field is optional; \<^verbatim>\<open>parentId\<close> may also be
  given as \<^verbatim>\<open>null\<close> (\<open>Some None\<close>).
\<close>

record AccountPatch =
  p_code :: "string option"
  p_name :: "string option"
  p_type :: "AccountType option"
  p_parentId :: "ident option option"
  p_isActive :: "bool option"

definition apply_patch :: "AccountPatch \<Rightarrow> Account \<Rightarrow> Account" where
  "apply_patch updateData a =
     a\<lparr>a_code := (case p_code updateData of None \<Rightarrow> a_code a | Some c \<Rightarrow> c),
       a_name := (case p_name updateData of None \<Rightarrow> a_name a | Some n \<Rightarrow> n),
       a_type := (case p_type updateData of None \<Rightarrow> a_type a | Some t \<Rightarrow> t),
       a_parentId := (case p_parentId updateData of None \<Rightarrow> a_parentId a | Some p \<Rightarrow> p),
       a_isActive := (case p_isActive updateData of None \<Rightarrow> a_isActive a | Some b \<Rightarrow> b)\<rparr>"

definition accountModel_updateById ::
    "db \<Rightarrow> ident \<Rightarrow> AccountPatch \<Rightarrow> (error + Account) \<times> db" where
  "accountModel_updateById s accountId updateData =
     (case accountModel_findById s accountId of
        None \<Rightarrow> (Inl (Error ''Account not found''), s)
      | Some a \<Rightarrow>
          (let a' = apply_patch updateData a in
           if find (\<lambda>x. a_code x = a_code a' \<and> a_id x \<noteq> accountId) (accounts s) \<noteq> None
           then (Inl (Error ''Account with this code already exists''), s)
           else if (case a_parentId a' of None \<Rightarrow> False
                    | Some p \<Rightarrow> accountModel_findById s p = None)
           then (Inl (Error ''Failed to update account''), s)
           else (Inr a',
                 s\<lparr>accounts := map (\<lambda>x. if a_id x = accountId then apply_patch updateData x else x)
                                    (accounts s)\<rparr>)))"

section \<open>Account registry: chartOfAccountsService.js\<close>

text \<open>JavaScript truthiness of an optional string: present and not empty.\<close>

definition truthy :: "string option \<Rightarrow> bool" where
  "truthy v = (case v of None \<Rightarrow> False | Some str \<Rightarrow> str \<noteq> [])"

definition createAccount :: "db \<Rightarrow> AccountData \<Rightarrow> ident \<Rightarrow> (error + Account) \<times> db" where
  "createAccount s accountData newId =
     (if d_code accountData \<noteq> [] \<and>
         find (\<lambda>a. a_code a = d_code accountData) (accounts s) \<noteq> None
      then (Inl (Error ''Account with this code already exists''), s)
      else if truthy (d_parentId accountData) \<and>
              accountModel_findById s (the (d_parentId accountData)) = None
      then (Inl (Error ''Parent account not found''), s)
      else accountModel_create s accountData newId)"

definition updateAccountById ::
    "db \<Rightarrow> ident \<Rightarrow> AccountPatch \<Rightarrow> (error + Account) \<times> db" where
  "updateAccountById s accountId updateData =
     (if truthy (p_code updateData) \<and>
         (case find (\<lambda>a. a_code a = the (p_code updateData)) (accounts s) of
            None \<Rightarrow> False | Some existingAccount \<Rightarrow> a_id existingAccount \<noteq> accountId)
      then (Inl (Error ''Account with this code already exists''), s)
      else
        (case p_parentId updateData of
           Some (Some parentId) \<Rightarrow>
             (if parentId = [] then accountModel_updateById s accountId updateData
              else if accountModel_findById s parentId = None
              then (Inl (Error ''Parent account not found''), s)
              else if parentId = accountId
              then (Inl (Error ''Account cannot be its own parent''), s)
              else accountModel_updateById s accountId updateData)
         | _ \<Rightarrow> accountModel_updateById s accountId updateData))"

definition deleteAccountById :: "db \<Rightarrow> ident \<Rightarrow> (error + Account) \<times> db" where
  "deleteAccountById s accountId =
     (let children = accountModel_getChildren s accountId in
      if length children > 0
      then (Inl (Error ''Cannot delete account with child accounts''), s)
      else
        (let hasEntries = accountModel_hasJournalEntries s accountId in
         if hasEntries
         then (Inl (Error ''Cannot delete account with journal entries''), s)
         else accountModel_deleteById s accountId))"

text \<open>
  \<^verbatim>\<open>getTrialBalance\<close>: the loop over the active accounts pushes one row per account and
  adds the raw debit and credit sums to the grand totals.
\<close>

record TrialBalanceRow =
  row_id :: ident
  row_code :: string
  row_name :: string
  row_type :: AccountType
  row_debit :: money
  row_credit :: money
  row_balance :: money

record Totals =
  totals_debit :: money
  totals_credit :: money

record TrialBalance =
  tb_date :: time
  tb_accounts :: "TrialBalanceRow list"
  totals :: Totals

definition trialBalance_step :: "db \<Rightarrow> time \<Rightarrow> TrialBalance \<Rightarrow> Account \<Rightarrow> TrialBalance" where
  "trialBalance_step s asOfDate trialBalance account =
     (let bal = accountModel_calculateBalance s (a_id account) None (Some asOfDate);
          isDebitNormal = a_type account \<in> set [ASSET, EXPENSE];
          normalBalance = (if isDebitNormal then debit bal - credit bal
                           else credit bal - debit bal)
      in trialBalance
           \<lparr>tb_accounts := tb_accounts trialBalance @
              [\<lparr>row_id = a_id account, row_code = a_code account, row_name = a_name account,
                row_type = a_type account, row_debit = debit bal, row_credit = credit bal,
                row_balance = normalBalance\<rparr>],
            totals := \<lparr>totals_debit = totals_debit (totals trialBalance) + debit bal,
                       totals_credit = totals_credit (totals trialBalance) + credit bal\<rparr>\<rparr>)"

definition getTrialBalance :: "db \<Rightarrow> time \<Rightarrow> TrialBalance" where
  "getTrialBalance s asOfDate =
     foldl (trialBalance_step s asOfDate)
       \<lparr>tb_date = asOfDate, tb_accounts = [],
        totals = \<lparr>totals_debit = 0, totals_credit = 0\<rparr>\<rparr>
       (accountModel_findAllActive s)"

section \<open>Journal engine: journalModel.js\<close>

text \<open>
  \<^verbatim>\<open>create\<close>: \<^verbatim>\<open>prisma.journalEntry.create({ data: entryData })\<close>. The store enforces
  the primary key and the foreign keys to two accounts and a user (P2003).
\<close>

record EntryData =
  ed_date :: time
  ed_description :: string
  ed_debitAccountId :: ident
  ed_creditAccountId :: ident
  ed_amount :: money
  ed_userId :: ident

definition journalModel_create ::
    "db \<Rightarrow> EntryData \<Rightarrow> ident \<Rightarrow> (error + JournalEntry) \<times> db" where
  "journalModel_create s entryData newId =
     (if accountModel_findById s (ed_debitAccountId entryData) = None
         \<or> accountModel_findById s (ed_creditAccountId entryData) = None
         \<or> ed_userId entryData \<notin> set (users s)
      then (Inl (Error ''Invalid account or user ID''), s)
      else if find (\<lambda>e. je_id e = newId) (journalEntries s) \<noteq> None
      then (Inl (Error ''Failed to create journal entry''), s)
      else
        (let entry = \<lparr>je_id = newId, je_date = ed_date entryData,
                      je_description = ed_description entryData,
                      je_debitAccountId = ed_debitAccountId entryData,
                      je_creditAccountId = ed_creditAccountId entryData,
                      je_amount = ed_amount entryData, je_userId = ed_userId entryData\<rparr>
         in (Inr entry, s\<lparr>journalEntries := journalEntries s @ [entry]\<rparr>)))"

text \<open>
  \<^verbatim>\<open>getAccountBalance(accountId)\<close>: one parameter; two aggregates without a date
  filter (\<^verbatim>\<open>_sum.amount || 0\<close>), then the branch on the account's type. Reading
  \<^verbatim>\<open>account.type\<close> of a missing account throws inside the try block.
\<close>

definition journalModel_getAccountBalance :: "db \<Rightarrow> ident \<Rightarrow> error + money" where
  "journalModel_getAccountBalance s accountId =
     (let debitTotal = sum_list (map je_amount
                         (filter (\<lambda>e. je_debitAccountId e = accountId) (journalEntries s)));
          creditTotal = sum_list (map je_amount
                          (filter (\<lambda>e. je_creditAccountId e = accountId) (journalEntries s)))
      in case accountModel_findById s accountId of
           None \<Rightarrow> Inl (Error ''Failed to get account balance'')
         | Some account \<Rightarrow>
             (if a_type account = ASSET \<or> a_type account = LIABILITY
              then Inr (debitTotal - creditTotal)
              else Inr (creditTotal - debitTotal)))"

section \<open>Journal engine and posting rules: journalService.js\<close>

definition journalService_createJournalEntry ::
    "db \<Rightarrow> EntryData \<Rightarrow> ident \<Rightarrow> (error + JournalEntry) \<times> db" where
  "journalService_createJournalEntry s entryData newId =
     (case accountModel_findById s (ed_debitAccountId entryData) of
        None \<Rightarrow> (Inl (Error ''Debit account not found or inactive''), s)
      | Some debitAccount \<Rightarrow>
          if \<not> a_isActive debitAccount
          then (Inl (Error ''Debit account not found or inactive''), s)
          else
            (case accountModel_findById s (ed_creditAccountId entryData) of
               None \<Rightarrow> (Inl (Error ''Credit account not found or inactive''), s)
             | Some creditAccount \<Rightarrow>
                 if \<not> a_isActive creditAccount
                 then (Inl (Error ''Credit account not found or inactive''), s)
                 else if ed_debitAccountId entryData = ed_creditAccountId entryData
                 then (Inl (Error ''Debit and credit accounts must be different''), s)
                 else if ed_amount entryData \<le> 0
                 then (Inl (Error ''Journal entry amount must be positive''), s)
                 else journalModel_create s entryData newId))"

text \<open>
  \<^verbatim>\<open>getCashAccountCode\<close>: \<^verbatim>\<open>accountCodes[paymentMethod] || '1001'\<close>. The table is an
  object literal, so the lookup also finds the members inherited from
  \<^verbatim>\<open>Object.prototype\<close>; they are truthy and the default is not taken for them.
\<close>

definition accountCodes :: "(string \<times> string) list" where
  "accountCodes =
     [(''cash'', ''1001''), (''card'', ''1002''), (''bank_transfer'', ''1002''),
      (''check'', ''1003''), (''digital_wallet'', ''1004'')]"

definition Object_prototype_keys :: "string list" where
  "Object_prototype_keys =
     [''constructor'', ''__defineGetter__'', ''__defineSetter__'', ''hasOwnProperty'',
      ''__lookupGetter__'', ''__lookupSetter__'', ''isPrototypeOf'',
      ''propertyIsEnumerable'', ''toString'', ''valueOf'', ''__proto__'',
      ''toLocaleString'']"

definition getCashAccountCode :: "string \<Rightarrow> js_value" where
  "getCashAccountCode paymentMethod =
     (case map_of accountCodes paymentMethod of
        Some c \<Rightarrow> JsString c
      | None \<Rightarrow> if paymentMethod \<in> set Object_prototype_keys
                then JsInherited paymentMethod
                else JsString ''1001'')"

text \<open>
  The three posting rules share one shape: look both accounts up by code, fail when one
  is missing, build the entry and hand it to \<^verbatim>\<open>createJournalEntry\<close>.
\<close>

definition post_pair ::
    "db \<Rightarrow> js_value \<Rightarrow> js_value \<Rightarrow> string \<Rightarrow> (Account \<Rightarrow> Account \<Rightarrow> EntryData)
       \<Rightarrow> ident \<Rightarrow> (error + JournalEntry) \<times> db" where
  "post_pair s firstCode secondCode missing mk newId =
     (case accountModel_findByCode s firstCode of
        Inl e \<Rightarrow> (Inl e, s)
      | Inr firstAccount \<Rightarrow>
          (case accountModel_findByCode s secondCode of
             Inl e \<Rightarrow> (Inl e, s)
           | Inr secondAccount \<Rightarrow>
               (case (firstAccount, secondAccount) of
                  (Some a, Some b) \<Rightarrow> journalService_createJournalEntry s (mk a b) newId
                | _ \<Rightarrow> (Inl (Error missing), s))))"

definition createSaleJournalEntries ::
    "db \<Rightarrow> ident \<Rightarrow> money \<Rightarrow> string \<Rightarrow> ident \<Rightarrow> time \<Rightarrow> ident
       \<Rightarrow> (error + JournalEntry) \<times> db" where
  "createSaleJournalEntries s saleId total' paymentMethod userId now newId =
     (let cashAccountCode = getCashAccountCode paymentMethod;
          revenueAccountCode = JsString ''4000''
      in post_pair s cashAccountCode revenueAccountCode
           ''Required accounts not found for sale transaction''
           (\<lambda>cashAccount revenueAccount.
              \<lparr>ed_date = now, ed_description = ''Sale transaction - '' @ saleId,
               ed_debitAccountId = a_id cashAccount,
               ed_creditAccountId = a_id revenueAccount,
               ed_amount = total', ed_userId = userId\<rparr>)
           newId)"

definition createPurchaseJournalEntries ::
    "db \<Rightarrow> ident \<Rightarrow> money \<Rightarrow> ident \<Rightarrow> time \<Rightarrow> ident \<Rightarrow> (error + JournalEntry) \<times> db" where
  "createPurchaseJournalEntries s purchaseId total' userId now newId =
     (let inventoryAccountCode = JsString ''1200'';
          accountsPayableCode = JsString ''2000''
      in post_pair s inventoryAccountCode accountsPayableCode
           ''Required accounts not found for purchase transaction''
           (\<lambda>inventoryAccount payableAccount.
              \<lparr>ed_date = now, ed_description = ''Purchase transaction - '' @ purchaseId,
               ed_debitAccountId = a_id inventoryAccount,
               ed_creditAccountId = a_id payableAccount,
               ed_amount = total', ed_userId = userId\<rparr>)
           newId)"

definition createReturnJournalEntries ::
    "db \<Rightarrow> ident \<Rightarrow> money \<Rightarrow> string \<Rightarrow> ident \<Rightarrow> time \<Rightarrow> ident
       \<Rightarrow> (error + JournalEntry) \<times> db" where
  "createReturnJournalEntries s returnId total' paymentMethod userId now newId =
     (let cashAccountCode = getCashAccountCode paymentMethod;
          revenueAccountCode = JsString ''4000''
      in post_pair s cashAccountCode revenueAccountCode
           ''Required accounts not found for return transaction''
           (\<lambda>cashAccount revenueAccount.
              \<lparr>ed_date = now, ed_description = ''Return transaction - '' @ returnId,
               ed_debitAccountId = a_id revenueAccount,
               ed_creditAccountId = a_id cashAccount,
               ed_amount = total', ed_userId = userId\<rparr>)
           newId)"

text \<open>
  \<^verbatim>\<open>updateJournalEntryById\<close>, \<^verbatim>\<open>deleteJournalEntryById\<close> and \<^verbatim>\<open>getJournalSummary\<close>
  end in calls of \<^verbatim>\<open>journalModel.updateById\<close>, \<^verbatim>\<open>journalModel.deleteById\<close> and
  \<^verbatim>\<open>journalModel.getSummary\<close>. The class \<^verbatim>\<open>JournalModel\<close> defines \<^verbatim>\<open>findById\<close>,
  \<^verbatim>\<open>findAll\<close>, \<^verbatim>\<open>create\<close>, \<^verbatim>\<open>createSaleEntries\<close>, \<^verbatim>\<open>getAccountBalance\<close> and
  \<^verbatim>\<open>getEntriesSummary\<close> only, so each of these calls applies \<^verbatim>\<open>undefined\<close> and
  throws a \<^verbatim>\<open>TypeError\<close> before the store is reached.
\<close>

record EntryPatch =
  up_date :: "time option"
  up_description :: "string option"
  up_debitAccountId :: "ident option"
  up_creditAccountId :: "ident option"
  up_amount :: "money option"
  up_userId :: "ident option"

definition inactive_or_missing :: "db \<Rightarrow> ident \<Rightarrow> bool" where
  "inactive_or_missing s accountId =
     (case accountModel_findById s accountId of None \<Rightarrow> True | Some a \<Rightarrow> \<not> a_isActive a)"

definition updateJournalEntryById ::
    "db \<Rightarrow> ident \<Rightarrow> EntryPatch \<Rightarrow> (error + JournalEntry) \<times> db" where
  "updateJournalEntryById s entryId updateData =
     (if truthy (up_debitAccountId updateData) \<and>
         inactive_or_missing s (the (up_debitAccountId updateData))
      then (Inl (Error ''Debit account not found or inactive''), s)
      else if truthy (up_creditAccountId updateData) \<and>
              inactive_or_missing s (the (up_creditAccountId updateData))
      then (Inl (Error ''Credit account not found or inactive''), s)
      else if truthy (up_debitAccountId updateData) \<and> truthy (up_creditAccountId updateData) \<and>
              up_debitAccountId updateData = up_creditAccountId updateData
      then (Inl (Error ''Debit and credit accounts must be different''), s)
      else if (case up_amount updateData of None \<Rightarrow> False | Some a \<Rightarrow> a \<le> 0)
      then (Inl (Error ''Journal entry amount must be positive''), s)
      else (Inl (TypeError ''journalModel.updateById is not a function''), s))"

definition deleteJournalEntryById :: "db \<Rightarrow> ident \<Rightarrow> (error + JournalEntry) \<times> db" where
  "deleteJournalEntryById s entryId =
     (Inl (TypeError ''journalModel.deleteById is not a function''), s)"

definition getJournalSummary :: "db \<Rightarrow> time \<Rightarrow> time \<Rightarrow> (error + unit) \<times> db" where
  "getJournalSummary s startDate endDate =
     (Inl (TypeError ''journalModel.getSummary is not a function''), s)"

definition getJournalEntryById :: "db \<Rightarrow> ident \<Rightarrow> error + JournalEntry" where
  "getJournalEntryById s entryId =
     (case find (\<lambda>e. je_id e = entryId) (journalEntries s) of
        None \<Rightarrow> Inl (Error ''Journal entry not found'')
      | Some entry \<Rightarrow> Inr entry)"

text \<open>
  \<^verbatim>\<open>getAccountBalance(accountId, startDate = null, endDate = null)\<close> passes three
  arguments to the model's one-parameter function; the dates are dropped there.
\<close>

definition journalService_getAccountBalance ::
    "db \<Rightarrow> ident \<Rightarrow> time option \<Rightarrow> time option \<Rightarrow> error + money" where
  "journalService_getAccountBalance s accountId startDate endDate =
     journalModel_getAccountBalance s accountId"

text \<open>
  The operations that the journal service exposes, and the store after each call. The
  queries leave the store as it is.
\<close>

datatype journal_call =
    GetJournalEntryById ident
  | GetAllJournalEntries
  | CreateJournalEntry EntryData ident
  | CreateSaleJournalEntries ident money string ident time ident
  | CreatePurchaseJournalEntries ident money ident time ident
  | CreateReturnJournalEntries ident money string ident time ident
  | UpdateJournalEntryById ident EntryPatch
  | DeleteJournalEntryById ident
  | GetJournalSummary time time
  | GetAccountBalance ident "time option" "time option"

fun journal_exec :: "db \<Rightarrow> journal_call \<Rightarrow> db" where
  "journal_exec s (GetJournalEntryById entryId) = s"
| "journal_exec s GetAllJournalEntries = s"
| "journal_exec s (CreateJournalEntry entryData newId) =
     snd (journalService_createJournalEntry s entryData newId)"
| "journal_exec s (CreateSaleJournalEntries saleId total' paymentMethod userId now newId) =
     snd (createSaleJournalEntries s saleId total' paymentMethod userId now newId)"
| "journal_exec s (CreatePurchaseJournalEntries purchaseId total' userId now newId) =
     snd (createPurchaseJournalEntries s purchaseId total' userId now newId)"
| "journal_exec s (CreateReturnJournalEntries returnId total' paymentMethod userId now newId) =
     snd (createReturnJournalEntries s returnId total' paymentMethod userId now newId)"
| "journal_exec s (UpdateJournalEntryById entryId updateData) =
     snd (updateJournalEntryById s entryId updateData)"
| "journal_exec s (DeleteJournalEntryById entryId) = snd (deleteJournalEntryById s entryId)"
| "journal_exec s (GetJournalSummary startDate endDate) =
     snd (getJournalSummary s startDate endDate)"
| "journal_exec s (GetAccountBalance accountId startDate endDate) = s"

section \<open>Cash register: cashRegisterModel.js and cashMovementModel.js\<close>

definition cashRegisterModel_findById :: "db \<Rightarrow> ident \<Rightarrow> CashRegister option" where
  "cashRegisterModel_findById s registerId =
     find (\<lambda>r. cr_id r = registerId) (cashRegisters s)"

text \<open>
  \<^verbatim>\<open>updateById\<close>: \<^verbatim>\<open>prisma.cashRegister.update\<close>; the patch is given as a function on
  the row. P2025 when the row is absent; the foreign keys of \<^verbatim>\<open>openedById\<close> and
  \<^verbatim>\<open>closedById\<close> point to users.
\<close>

definition user_ref_ok :: "db \<Rightarrow> ident option \<Rightarrow> bool" where
  "user_ref_ok s u = (case u of None \<Rightarrow> True | Some userId \<Rightarrow> userId \<in> set (users s))"

definition cashRegisterModel_updateById ::
    "db \<Rightarrow> ident \<Rightarrow> (CashRegister \<Rightarrow> CashRegister) \<Rightarrow> (error + CashRegister) \<times> db" where
  "cashRegisterModel_updateById s registerId updateData =
     (case cashRegisterModel_findById s registerId of
        None \<Rightarrow> (Inl (Error ''Cash register not found''), s)
      | Some r \<Rightarrow>
          if \<not> user_ref_ok s (cr_openedById (updateData r))
             \<or> \<not> user_ref_ok s (cr_closedById (updateData r))
          then (Inl (Error ''Failed to update cash register''), s)
          else (Inr (updateData r),
                s\<lparr>cashRegisters := map (\<lambda>x. if cr_id x = registerId then updateData x else x)
                                        (cashRegisters s)\<rparr>))"

text \<open>\<^verbatim>\<open>findOpenByUserId\<close>: \<^verbatim>\<open>findFirst({ where: { openedById: userId, isOpen: true } })\<close>.\<close>

definition cashRegisterModel_findOpenByUserId :: "db \<Rightarrow> ident \<Rightarrow> CashRegister option" where
  "cashRegisterModel_findOpenByUserId s userId =
     find (\<lambda>r. cr_openedById r = Some userId \<and> cr_isOpen r) (cashRegisters s)"

text \<open>
  \<^verbatim>\<open>cashMovementModel.create\<close>: the row gets its id and its \<^verbatim>\<open>createdAt\<close> from the
  store; the foreign keys point to the register and the user.
\<close>

record MovementData =
  md_cashRegisterId :: ident
  md_type :: CashMovementType
  md_amount :: money
  md_description :: "string option"
  md_reference :: "string option"
  md_userId :: ident

definition cashMovementModel_create ::
    "db \<Rightarrow> MovementData \<Rightarrow> time \<Rightarrow> ident \<Rightarrow> (error + CashMovement) \<times> db" where
  "cashMovementModel_create s movementData now newId =
     (if cashRegisterModel_findById s (md_cashRegisterId movementData) = None
         \<or> md_userId movementData \<notin> set (users s)
         \<or> find (\<lambda>m. cm_id m = newId) (cashMovements s) \<noteq> None
      then (Inl (Error ''Failed to create cash movement''), s)
      else
        (let movement = \<lparr>cm_id = newId, cm_cashRegisterId = md_cashRegisterId movementData,
                         cm_type = md_type movementData, cm_amount = md_amount movementData,
                         cm_description = md_description movementData,
                         cm_reference = md_reference movementData,
                         cm_userId = md_userId movementData, cm_createdAt = now\<rparr>
         in (Inr movement, s\<lparr>cashMovements := cashMovements s @ [movement]\<rparr>)))"

text \<open>
  \<^verbatim>\<open>findByDateRange\<close>: \<^verbatim>\<open>createdAt\<close> between the bounds, both inclusive, for the given
  register when the id is truthy, ordered by \<^verbatim>\<open>createdAt\<close> ascending.
\<close>

definition cashMovementModel_findByDateRange ::
    "db \<Rightarrow> time \<Rightarrow> time \<Rightarrow> ident option \<Rightarrow> CashMovement list" where
  "cashMovementModel_findByDateRange s startDate endDate registerId =
     sort_key cm_createdAt
       (filter (\<lambda>m. startDate \<le> cm_createdAt m \<and> cm_createdAt m \<le> endDate \<and>
                     (if truthy registerId then cm_cashRegisterId m = the registerId else True))
          (cashMovements s))"

section \<open>Cash register session manager: class CashRegisterService\<close>

definition getCashRegisterById :: "db \<Rightarrow> ident \<Rightarrow> error + CashRegister" where
  "getCashRegisterById s registerId =
     (case cashRegisterModel_findById s registerId of
        None \<Rightarrow> Inl (Error ''Cash register not found'')
      | Some cashRegister \<Rightarrow> Inr cashRegister)"

text \<open>The body of the \<^verbatim>\<open>forEach\<close> in \<^verbatim>\<open>calculateExpectedBalance\<close>: the switch on the type.\<close>

fun replay :: "money \<Rightarrow> CashMovement \<Rightarrow> money" where
  "replay bal movement =
     (case cm_type movement of
        OPENING \<Rightarrow> bal
      | SALE \<Rightarrow> bal + cm_amount movement
      | DEPOSIT \<Rightarrow> bal + cm_amount movement
      | RETURN \<Rightarrow> bal - cm_amount movement
      | WITHDRAWAL \<Rightarrow> bal - cm_amount movement
      | CLOSING \<Rightarrow> bal)"

text \<open>\<^verbatim>\<open>calculateExpectedBalance\<close>; \<open>now\<close> is the reading of \<^verbatim>\<open>new Date()\<close>.\<close>

definition calculateExpectedBalance :: "db \<Rightarrow> ident \<Rightarrow> time \<Rightarrow> error + money" where
  "calculateExpectedBalance s registerId now =
     (case getCashRegisterById s registerId of
        Inl e \<Rightarrow> Inl e
      | Inr cashRegister \<Rightarrow>
          (case cr_openedAt cashRegister of
             None \<Rightarrow> Inr 0
           | Some openedAt \<Rightarrow>
               (let movements = cashMovementModel_findByDateRange s openedAt now (Some registerId)
                in Inr (foldl replay (cr_openingBalance cashRegister) movements))))"

text \<open>
  \<^verbatim>\<open>openCashRegister\<close>; \<open>now\<close> is the \<^verbatim>\<open>new Date()\<close> stored in \<^verbatim>\<open>openedAt\<close>, \<open>createdAt\<close>
  the timestamp the store gives the OPENING movement.
\<close>

definition openCashRegister ::
    "db \<Rightarrow> ident \<Rightarrow> money \<Rightarrow> ident \<Rightarrow> time \<Rightarrow> time \<Rightarrow> ident \<Rightarrow> (error + CashRegister) \<times> db" where
  "openCashRegister s registerId openingBalance userId now createdAt newId =
     (case getCashRegisterById s registerId of
        Inl e \<Rightarrow> (Inl e, s)
      | Inr cashRegister \<Rightarrow>
          if cr_isOpen cashRegister
          then (Inl (Error ''Cash register is already open''), s)
          else if cashRegisterModel_findOpenByUserId s userId \<noteq> None
          then (Inl (Error ''User already has an open cash register''), s)
          else if openingBalance < 0
          then (Inl (Error ''Opening balance cannot be negative''), s)
          else
            (case cashRegisterModel_updateById s registerId
                    (\<lambda>r. r\<lparr>cr_isOpen := True, cr_openingBalance := openingBalance,
                            cr_currentBalance := openingBalance, cr_openedAt := Some now,
                            cr_openedById := Some userId\<rparr>) of
               (Inl e, s1) \<Rightarrow> (Inl e, s1)
             | (Inr openedRegister, s1) \<Rightarrow>
                 (case cashMovementModel_create s1
                         \<lparr>md_cashRegisterId = registerId, md_type = OPENING,
                          md_amount = openingBalance,
                          md_description = Some ''Cash register opened'',
                          md_reference = None, md_userId = userId\<rparr> createdAt newId of
                    (Inl e, s2) \<Rightarrow> (Inl e, s2)
                  | (Inr movement, s2) \<Rightarrow> (Inr openedRegister, s2))))"




text \<open>
  The tail that the four recording operations share: create the movement, then write
  \<^verbatim>\<open>currentBalance\<close> computed from the register row read at the start.
\<close>

definition write_movement ::
    "db \<Rightarrow> MovementData \<Rightarrow> money \<Rightarrow> time \<Rightarrow> ident \<Rightarrow> (error + CashMovement) \<times> db" where
  "write_movement s movementData newBalance createdAt newId =
     (case cashMovementModel_create s movementData createdAt newId of
        (Inl e, s1) \<Rightarrow> (Inl e, s1)
      | (Inr movement, s1) \<Rightarrow>
          (case cashRegisterModel_updateById s1 (md_cashRegisterId movementData)
                  (\<lambda>r. r\<lparr>cr_currentBalance := newBalance\<rparr>) of
             (Inl e, s2) \<Rightarrow> (Inl e, s2)
           | (Inr r, s2) \<Rightarrow> (Inr movement, s2)))"

definition recordDeposit ::
    "db \<Rightarrow> ident \<Rightarrow> money \<Rightarrow> string option \<Rightarrow> ident \<Rightarrow> time \<Rightarrow> ident
       \<Rightarrow> (error + CashMovement) \<times> db" where
  "recordDeposit s registerId amount description userId createdAt newId =
     (case getCashRegisterById s registerId of
        Inl e \<Rightarrow> (Inl e, s)
      | Inr cashRegister \<Rightarrow>
          if \<not> cr_isOpen cashRegister
          then (Inl (Error ''Cash register is not open''), s)
          else if amount \<le> 0
          then (Inl (Error ''Deposit amount must be positive''), s)
          else write_movement s
                 \<lparr>md_cashRegisterId = registerId, md_type = DEPOSIT, md_amount = amount,
                  md_description = (if truthy description then description
                                    else Some ''Cash deposit''),
                  md_reference = None, md_userId = userId\<rparr>
                 (cr_currentBalance cashRegister + amount) createdAt newId)"

definition recordWithdrawal ::
    "db \<Rightarrow> ident \<Rightarrow> money \<Rightarrow> string option \<Rightarrow> ident \<Rightarrow> time \<Rightarrow> ident
       \<Rightarrow> (error + CashMovement) \<times> db" where
  "recordWithdrawal s registerId amount description userId createdAt newId =
     (case getCashRegisterById s registerId of
        Inl e \<Rightarrow> (Inl e, s)
      | Inr cashRegister \<Rightarrow>
          if \<not> cr_isOpen cashRegister
          then (Inl (Error ''Cash register is not open''), s)
          else if amount \<le> 0
          then (Inl (Error ''Withdrawal amount must be positive''), s)
          else if cr_currentBalance cashRegister < amount
          then (Inl (Error ''Insufficient cash register balance''), s)
          else write_movement s
                 \<lparr>md_cashRegisterId = registerId, md_type = WITHDRAWAL, md_amount = amount,
                  md_description = (if truthy description then description
                                    else Some ''Cash withdrawal''),
                  md_reference = None, md_userId = userId\<rparr>
                 (cr_currentBalance cashRegister - amount) createdAt newId)"

definition recordSale ::
    "db \<Rightarrow> ident \<Rightarrow> money \<Rightarrow> string option \<Rightarrow> ident \<Rightarrow> time \<Rightarrow> ident
       \<Rightarrow> (error + CashMovement) \<times> db" where
  "recordSale s registerId amount reference userId createdAt newId =
     (case getCashRegisterById s registerId of
        Inl e \<Rightarrow> (Inl e, s)
      | Inr cashRegister \<Rightarrow>
          if \<not> cr_isOpen cashRegister
          then (Inl (Error ''Cash register is not open''), s)
          else if amount \<le> 0
          then (Inl (Error ''Sale amount must be positive''), s)
          else write_movement s
                 \<lparr>md_cashRegisterId = registerId, md_type = SALE, md_amount = amount,
                  md_description = Some ''Sale transaction'',
                  md_reference = reference, md_userId = userId\<rparr>
                 (cr_currentBalance cashRegister + amount) createdAt newId)"

definition recordReturn ::
    "db \<Rightarrow> ident \<Rightarrow> money \<Rightarrow> string option \<Rightarrow> ident \<Rightarrow> time \<Rightarrow> ident
       \<Rightarrow> (error + CashMovement) \<times> db" where
  "recordReturn s registerId amount reference userId createdAt newId =
     (case getCashRegisterById s registerId of
        Inl e \<Rightarrow> (Inl e, s)
      | Inr cashRegister \<Rightarrow>
          if \<not> cr_isOpen cashRegister
          then (Inl (Error ''Cash register is not open''), s)
          else if amount \<le> 0
          then (Inl (Error ''Return amount must be positive''), s)
          else if cr_currentBalance cashRegister < amount
          then (Inl (Error ''Insufficient cash register balance for return''), s)
          else write_movement s
                 \<lparr>md_cashRegisterId = registerId, md_type = RETURN, md_amount = amount,
                  md_description = Some ''Return transaction'',
                  md_reference = reference, md_userId = userId\<rparr>
                 (cr_currentBalance cashRegister - amount) createdAt newId)"

section \<open>Sales and returns: the callers of the posting rules\<close>

text \<open>
  \<^verbatim>\<open>SaleService.createSale\<close> with \<^verbatim>\<open>productModel\<close>, \<^verbatim>\<open>customerModel\<close> and
  \<^verbatim>\<open>saleModel\<close>. The Prisma schema is not among the sources; an insert is accepted
  when the keys of the migration hold. \<^verbatim>\<open>saleModel.create\<close> passes a \<^verbatim>\<open>discountType\<close>
  with the sale, for which the sales table of the migration has no column: the model
  accepts the insert as a schema with that field would, and a store built from the
  migration alone would refuse it, so that no sale would reach the posting at all.
\<close>

record SaleItem =
  it_productId :: "ident option"
  it_sku :: "string option"
  it_barcode :: "string option"
  it_quantity :: int
  it_unitPrice :: "money option"

record SaleData =
  sd_items :: "SaleItem list"
  sd_customerId :: "ident option"
  sd_userId :: ident
  sd_discount :: "money option"
  sd_discountType :: "string option"
  sd_tax :: "money option"
  sd_paymentMethod :: string
  sd_paymentAmount :: money

definition productModel_findById :: "db \<Rightarrow> ident \<Rightarrow> Product option" where
  "productModel_findById s productId = find (\<lambda>p. pr_id p = productId) (products s)"

definition productModel_findBySku :: "db \<Rightarrow> string \<Rightarrow> Product option" where
  "productModel_findBySku s sku = find (\<lambda>p. pr_sku p = sku) (products s)"

definition productModel_findByBarcode :: "db \<Rightarrow> string \<Rightarrow> Product option" where
  "productModel_findByBarcode s barcode = find (\<lambda>p. pr_barcode p = Some barcode) (products s)"

definition lookup_product :: "db \<Rightarrow> SaleItem \<Rightarrow> Product option" where
  "lookup_product s item =
     (if truthy (it_productId item) then productModel_findById s (the (it_productId item))
      else if truthy (it_sku item) then productModel_findBySku s (the (it_sku item))
      else if truthy (it_barcode item) then productModel_findByBarcode s (the (it_barcode item))
      else None)"

text \<open>\<^verbatim>\<open>item.unitPrice || product.price\<close>: an absent or zero unit price is falsy.\<close>

definition unit_price :: "SaleItem \<Rightarrow> Product \<Rightarrow> money" where
  "unit_price item product =
     (case it_unitPrice item of
        None \<Rightarrow> pr_price product
      | Some p \<Rightarrow> if p = 0 then pr_price product else p)"

text \<open>The loop over the items, with its two accumulators.\<close>

fun process_items ::
    "db \<Rightarrow> SaleItem list \<Rightarrow> ProcessedItem list \<Rightarrow> money \<Rightarrow> error + ProcessedItem list \<times> money" where
  "process_items s [] processedItems subtotal = Inr (processedItems, subtotal)"
| "process_items s (item # items) processedItems subtotal =
     (case lookup_product s item of
        None \<Rightarrow> Inl (Error ''Product not found'')
      | Some product \<Rightarrow>
          if \<not> pr_isActive product then Inl (Error ''Product is inactive'')
          else if pr_stock product < it_quantity item then Inl (Error ''Insufficient stock'')
          else
            (let unitPrice = unit_price item product;
                 itemTotal = real_of_int (it_quantity item) * unitPrice
             in process_items s items
                  (processedItems @
                     [\<lparr>pi_productId = pr_id product, pi_quantity = it_quantity item,
                       pi_unitPrice = unitPrice, pi_total = itemTotal\<rparr>])
                  (subtotal + itemTotal)))"

text \<open>
  \<^verbatim>\<open>saleModel.create\<close> computes the stored total again from the items and from the
  discount it is given, then inserts the sale with its items.
\<close>

record SaleFields =
  sf_customerId :: "ident option"
  sf_userId :: ident
  sf_total :: money
  sf_tax :: money
  sf_discount :: money
  sf_discountType :: string
  sf_items :: "ProcessedItem list"

definition saleModel_create :: "db \<Rightarrow> SaleFields \<Rightarrow> ident \<Rightarrow> (error + Sale) \<times> db" where
  "saleModel_create s saleData newId =
     (let subtotal = foldl (\<lambda>acc item. acc + real_of_int (pi_quantity item) * pi_unitPrice item)
                       0 (sf_items saleData);
          discountAmount = (if sf_discountType saleData = ''percentage''
                            then (subtotal * sf_discount saleData) / 100
                            else sf_discount saleData);
          total' = subtotal - discountAmount + sf_tax saleData
      in if (case sf_customerId saleData of None \<Rightarrow> False
             | Some c \<Rightarrow> c \<notin> set (customers s))
            \<or> sf_userId saleData \<notin> set (users s)
            \<or> list_ex (\<lambda>item. productModel_findById s (pi_productId item) = None)
                 (sf_items saleData)
         then (Inl (Error ''Invalid customer, user, or product ID''), s)
         else if find (\<lambda>x. sale_id x = newId) (sales s) \<noteq> None
         then (Inl (Error ''Failed to create sale''), s)
         else
           (let sale = \<lparr>sale_id = newId, sale_customerId = sf_customerId saleData,
                        sale_userId = sf_userId saleData, sale_total = total',
                        sale_tax = sf_tax saleData, sale_discount = sf_discount saleData,
                        sale_items = sf_items saleData\<rparr>
            in (Inr sale, s\<lparr>sales := sales s @ [sale]\<rparr>)))"

text \<open>\<^verbatim>\<open>saleModel.updateProductStock\<close>: one decrement per item, stopping at the first failure.\<close>

fun saleModel_updateProductStock :: "db \<Rightarrow> ProcessedItem list \<Rightarrow> (error + unit) \<times> db" where
  "saleModel_updateProductStock s [] = (Inr (), s)"
| "saleModel_updateProductStock s (item # items) =
     (case productModel_findById s (pi_productId item) of
        None \<Rightarrow> (Inl (Error ''Failed to update product stock''), s)
      | Some p \<Rightarrow>
          saleModel_updateProductStock
            (s\<lparr>products := map (\<lambda>x. if pr_id x = pi_productId item
                                      then x\<lparr>pr_stock := pr_stock x - pi_quantity item\<rparr> else x)
                               (products s)\<rparr>)
            items)"

record Payment =
  pay_method :: string
  pay_amount :: money
  pay_change :: money
  pay_subtotal :: money
  pay_discountAmount :: money
  pay_tax :: money

record SaleResult =
  res_sale :: Sale
  res_payment :: Payment

text \<open>
  \<^verbatim>\<open>createSale\<close> up to and including the stock update: the business transaction. It
  yields the created sale, the total the service computed and the payment summary.
\<close>

definition createSale_business ::
    "db \<Rightarrow> SaleData \<Rightarrow> ident \<Rightarrow> (error + Sale \<times> money \<times> Payment) \<times> db" where
  "createSale_business s saleData newId =
     (if truthy (sd_customerId saleData) \<and>
         the (sd_customerId saleData) \<notin> set (customers s)
      then (Inl (Error ''Customer not found''), s)
      else
        (case process_items s (sd_items saleData) [] 0 of
           Inl e \<Rightarrow> (Inl e, s)
         | Inr (processedItems, subtotal) \<Rightarrow>
             (let discount = (case sd_discount saleData of None \<Rightarrow> 0 | Some d \<Rightarrow> d);
                  discountType = (case sd_discountType saleData of
                                    None \<Rightarrow> ''fixed'' | Some t \<Rightarrow> t);
                  tax = (case sd_tax saleData of None \<Rightarrow> 0 | Some t \<Rightarrow> t);
                  discountAmount = (if discountType = ''percentage''
                                    then (subtotal * discount) / 100 else discount);
                  total' = subtotal - discountAmount + tax
              in if sd_paymentAmount saleData < total'
                 then (Inl (Error ''Payment amount is less than total''), s)
                 else
                   (case saleModel_create s
                           \<lparr>sf_customerId = sd_customerId saleData,
                            sf_userId = sd_userId saleData, sf_total = total', sf_tax = tax,
                            sf_discount = discountAmount, sf_discountType = discountType,
                            sf_items = processedItems\<rparr> newId of
                      (Inl e, s1) \<Rightarrow> (Inl e, s1)
                    | (Inr sale, s1) \<Rightarrow>
                        (case saleModel_updateProductStock s1 processedItems of
                           (Inl e, s2) \<Rightarrow> (Inl e, s2)
                         | (Inr u, s2) \<Rightarrow>
                             (Inr (sale, total',
                                   \<lparr>pay_method = sd_paymentMethod saleData,
                                    pay_amount = sd_paymentAmount saleData,
                                    pay_change = sd_paymentAmount saleData - total',
                                    pay_subtotal = subtotal,
                                    pay_discountAmount = discountAmount,
                                    pay_tax = tax\<rparr>), s2))))))"

text \<open>
  \<^verbatim>\<open>createSale\<close>: the business transaction, then the posting inside try/catch. The
  catch logs and drops the error, so only the store after the posting is kept.
\<close>

definition createSale ::
    "db \<Rightarrow> SaleData \<Rightarrow> ident \<Rightarrow> time \<Rightarrow> ident \<Rightarrow> (error + SaleResult) \<times> db" where
  "createSale s saleData newId now entryId =
     (case createSale_business s saleData newId of
        (Inl e, s1) \<Rightarrow> (Inl e, s1)
      | (Inr (sale, total', payment), s1) \<Rightarrow>
          (let s2 = snd (createSaleJournalEntries s1 (sale_id sale) total'
                           (sd_paymentMethod saleData) (sd_userId saleData) now entryId)
           in (Inr \<lparr>res_sale = sale, res_payment = payment\<rparr>, s2)))"

text \<open>\<^verbatim>\<open>returnModel.updateProductStock\<close>: one increment per item, stopping at the first failure.\<close>

fun returnModel_updateProductStock :: "db \<Rightarrow> ProcessedItem list \<Rightarrow> (error + unit) \<times> db" where
  "returnModel_updateProductStock s [] = (Inr (), s)"
| "returnModel_updateProductStock s (item # items) =
     (case productModel_findById s (pi_productId item) of
        None \<Rightarrow> (Inl (Error ''Failed to update product stock''), s)
      | Some p \<Rightarrow>
          returnModel_updateProductStock
            (s\<lparr>products := map (\<lambda>x. if pr_id x = pi_productId item
                                      then x\<lparr>pr_stock := pr_stock x + pi_quantity item\<rparr> else x)
                               (products s)\<rparr>)
            items)"

text \<open>
  \<^verbatim>\<open>ReturnService.processRefund(returnObj, sale)\<close>: the stock update, then the posting
  inside try/catch. The stock update is the argument \<open>updateProductStock\<close>, so that what
  is proved about the catch holds whatever the stock update does; the service calls it
  with \<open>returnModel_updateProductStock\<close>. The payment method is read from the sale
  object, where it may be absent; an absent property used as a key is the text
  \<^verbatim>\<open>undefined\<close>.
\<close>

record Return =
  ret_id :: ident
  ret_userId :: ident
  ret_total :: money
  ret_items :: "ProcessedItem list"

definition property_key :: "string option \<Rightarrow> string" where
  "property_key v = (case v of None \<Rightarrow> ''undefined'' | Some str \<Rightarrow> str)"

definition processRefund ::
    "(db \<Rightarrow> ProcessedItem list \<Rightarrow> (error + unit) \<times> db) \<Rightarrow> db \<Rightarrow> Return \<Rightarrow> string option
       \<Rightarrow> time \<Rightarrow> ident \<Rightarrow> (error + unit) \<times> db" where
  "processRefund updateProductStock s returnObj salePaymentMethod now entryId =
     (case updateProductStock s (ret_items returnObj) of
        (Inl e, s1) \<Rightarrow> (Inl e, s1)
      | (Inr u, s1) \<Rightarrow>
          (let s2 = snd (createReturnJournalEntries s1 (ret_id returnObj) (ret_total returnObj)
                           (property_key salePaymentMethod) (ret_userId returnObj) now entryId)
           in (Inr (), s2)))"

definition ReturnService_processRefund ::
    "db \<Rightarrow> Return \<Rightarrow> string option \<Rightarrow> time \<Rightarrow> ident \<Rightarrow> (error + unit) \<times> db" where
  "ReturnService_processRefund = processRefund returnModel_updateProductStock"

section \<open>Sequences of recording calls\<close>

datatype register_call =
    Deposit money "string option" ident time ident
  | Withdrawal money "string option" ident time ident
  | SaleCall money "string option" ident time ident
  | ReturnCall money "string option" ident time ident

fun run_call :: "db \<Rightarrow> ident \<Rightarrow> register_call \<Rightarrow> (error + CashMovement) \<times> db" where
  "run_call s registerId (Deposit amount description userId createdAt newId) =
     recordDeposit s registerId amount description userId createdAt newId"
| "run_call s registerId (Withdrawal amount description userId createdAt newId) =
     recordWithdrawal s registerId amount description userId createdAt newId"
| "run_call s registerId (SaleCall amount reference userId createdAt newId) =
     recordSale s registerId amount reference userId createdAt newId"
| "run_call s registerId (ReturnCall amount reference userId createdAt newId) =
     recordReturn s registerId amount reference userId createdAt newId"

fun call_time :: "register_call \<Rightarrow> time" where
  "call_time (Deposit amount description userId createdAt newId) = createdAt"
| "call_time (Withdrawal amount description userId createdAt newId) = createdAt"
| "call_time (SaleCall amount reference userId createdAt newId) = createdAt"
| "call_time (ReturnCall amount reference userId createdAt newId) = createdAt"

text \<open>A sequence of calls, each of which succeeds: the store at the end, or \<open>None\<close>.\<close>

fun run_calls :: "db \<Rightarrow> ident \<Rightarrow> register_call list \<Rightarrow> db option" where
  "run_calls s registerId [] = Some s"
| "run_calls s registerId (c # cs) =
     (case run_call s registerId c of
        (Inl e, s1) \<Rightarrow> None
      | (Inr movement, s1) \<Rightarrow> run_calls s1 registerId cs)"

text \<open>
  The balance that the recording calls maintain step by step: each call adds its amount
  to, or subtracts it from, the \<^verbatim>\<open>currentBalance\<close> it read.
\<close>

fun apply_call :: "money \<Rightarrow> register_call \<Rightarrow> money" where
  "apply_call bal (Deposit amount description userId createdAt newId) = bal + amount"
| "apply_call bal (Withdrawal amount description userId createdAt newId) = bal - amount"
| "apply_call bal (SaleCall amount reference userId createdAt newId) = bal + amount"
| "apply_call bal (ReturnCall amount reference userId createdAt newId) = bal - amount"

text \<open>
  The log of a session, in the words of the specification: the movements of the register
  stamped from \<open>openedAt\<close> to \<open>now\<close>, OPENING and CLOSING left out, in the order in
  which they were written.
\<close>

definition effective :: "CashMovement \<Rightarrow> bool" where
  "effective movement = (cm_type movement \<noteq> OPENING \<and> cm_type movement \<noteq> CLOSING)"

definition session_log :: "db \<Rightarrow> ident \<Rightarrow> time \<Rightarrow> time \<Rightarrow> CashMovement list" where
  "session_log s registerId openedAt now =
     filter (\<lambda>m. effective m \<and> openedAt \<le> cm_createdAt m \<and> cm_createdAt m \<le> now \<and>
                   cm_cashRegisterId m = registerId) (cashMovements s)"

text \<open>
  The register is in a session opened at \<open>openedAt\<close>, the log of the session is in the
  order of its stamps, and \<^verbatim>\<open>currentBalance\<close> is the opening balance replayed over it.
\<close>

definition in_session :: "db \<Rightarrow> ident \<Rightarrow> time \<Rightarrow> time \<Rightarrow> bool" where
  "in_session s registerId openedAt now =
     (case cashRegisterModel_findById s registerId of
        None \<Rightarrow> False
      | Some r \<Rightarrow> cr_openedAt r = Some openedAt \<and>
          sorted (map cm_createdAt (session_log s registerId openedAt now)) \<and>
          cr_currentBalance r =
            foldl replay (cr_openingBalance r) (session_log s registerId openedAt now))"

text \<open>The store with the \<^verbatim>\<open>currentBalance\<close> of every register overwritten.\<close>

definition overwrite_currentBalance :: "money \<Rightarrow> db \<Rightarrow> db" where
  "overwrite_currentBalance b s =
     s\<lparr>cashRegisters := map (\<lambda>r. r\<lparr>cr_currentBalance := b\<rparr>) (cashRegisters s)\<rparr>"

section \<open>Concrete stores\<close>

text \<open>
  A small ledger: cash, sales revenue, accounts payable and an expense account, with two
  cash sales (dates 10 and 50) and one expense on credit (date 10).
\<close>

definition ledger_example :: db where
  "ledger_example = empty_db
     \<lparr>users := [''u1''],
      accounts :=
        [\<lparr>a_id = ''a1'', a_code = ''1001'', a_name = ''Cash'', a_type = ASSET,
          a_parentId = None, a_isActive = True\<rparr>,
         \<lparr>a_id = ''a2'', a_code = ''4000'', a_name = ''Sales Revenue'', a_type = REVENUE,
          a_parentId = None, a_isActive = True\<rparr>,
         \<lparr>a_id = ''a3'', a_code = ''2000'', a_name = ''Accounts Payable'', a_type = LIABILITY,
          a_parentId = None, a_isActive = True\<rparr>,
         \<lparr>a_id = ''a4'', a_code = ''5100'', a_name = ''Operating Expenses'', a_type = EXPENSE,
          a_parentId = None, a_isActive = True\<rparr>],
      journalEntries :=
        [\<lparr>je_id = ''e1'', je_date = 10, je_description = ''Sale transaction - s1'',
          je_debitAccountId = ''a1'', je_creditAccountId = ''a2'', je_amount = 200,
          je_userId = ''u1''\<rparr>,
         \<lparr>je_id = ''e2'', je_date = 50, je_description = ''Sale transaction - s2'',
          je_debitAccountId = ''a1'', je_creditAccountId = ''a2'', je_amount = 300,
          je_userId = ''u1''\<rparr>,
         \<lparr>je_id = ''e3'', je_date = 10, je_description = ''Rent'',
          je_debitAccountId = ''a4'', je_creditAccountId = ''a3'', je_amount = 40,
          je_userId = ''u1''\<rparr>]\<rparr>"

text \<open>
  A ledger built by the operations themselves: two accounts are created, a cash sale of
  100 is posted at time 10, then the revenue account is switched off through
  \<^verbatim>\<open>updateAccountById\<close>.
\<close>

definition cash_account_data :: AccountData where
  "cash_account_data = \<lparr>d_code = ''1001'', d_name = ''Cash'', d_type = ASSET,
                         d_parentId = None, d_isActive = None\<rparr>"

definition revenue_account_data :: AccountData where
  "revenue_account_data = \<lparr>d_code = ''4000'', d_name = ''Sales Revenue'', d_type = REVENUE,
                            d_parentId = None, d_isActive = None\<rparr>"

definition deactivate_patch :: AccountPatch where
  "deactivate_patch = \<lparr>p_code = None, p_name = None, p_type = None, p_parentId = None,
                        p_isActive = Some False\<rparr>"

definition ledger_two_accounts :: db where
  "ledger_two_accounts =
     snd (createAccount
            (snd (createAccount (empty_db\<lparr>users := [''u1'']\<rparr>) cash_account_data ''a1''))
            revenue_account_data ''a2'')"

definition ledger_posted :: db where
  "ledger_posted =
     snd (createSaleJournalEntries ledger_two_accounts ''s1'' 100 ''cash'' ''u1'' 10 ''e1'')"

definition ledger_deactivated :: db where
  "ledger_deactivated = snd (updateAccountById ledger_posted ''a2'' deactivate_patch)"

text \<open>An account tree: a parent without journal entries whose only child is inactive.\<close>

definition tree_example :: db where
  "tree_example = empty_db
     \<lparr>accounts :=
        [\<lparr>a_id = ''p'', a_code = ''1000'', a_name = ''Assets'', a_type = ASSET,
          a_parentId = None, a_isActive = True\<rparr>,
         \<lparr>a_id = ''c'', a_code = ''1010'', a_name = ''Petty cash'', a_type = ASSET,
          a_parentId = Some ''p'', a_isActive = False\<rparr>]\<rparr>"

text \<open>
  A register that was never opened, and the same register in a session opened by
  \<open>u1\<close> at time 100 with 100 in the drawer, a sale of 50 and a withdrawal of 30.
\<close>

definition closed_register :: CashRegister where
  "closed_register =
     \<lparr>cr_id = ''r1'', cr_name = ''Front'', cr_isOpen = False, cr_openingBalance = 0,
      cr_currentBalance = 0, cr_openedAt = None, cr_closedAt = None,
      cr_openedById = None, cr_closedById = None\<rparr>"

definition till_new :: db where
  "till_new = empty_db\<lparr>users := [''u1'', ''u2''], cashRegisters := [closed_register]\<rparr>"

definition till_open :: db where
  "till_open = snd (openCashRegister till_new ''r1'' 100 ''u1'' 100 101 ''m0'')"

definition till_calls :: "register_call list" where
  "till_calls = [SaleCall 50 (Some ''s1'') ''u1'' 110 ''m1'',
                 Withdrawal 30 None ''u1'' 120 ''m2'']"

definition till_busy :: db where
  "till_busy = the (run_calls till_open ''r1'' till_calls)"

text \<open>
  Three sessions whose stamps do not fit the window that \<^verbatim>\<open>calculateExpectedBalance\<close>
  reads. In the first the store's clock is behind the application's: the register is
  opened at 100 and a sale of 50 is stamped 99. In the second the sale is stamped 140 and
  the expected balance is asked for at 130. In the third the register has a sale of 50
  from an earlier session stamped 100 and is opened again at 100 with 20 in the drawer.
\<close>

definition till_early :: db where
  "till_early = the (run_calls till_open ''r1'' [SaleCall 50 (Some ''s1'') ''u1'' 99 ''m1''])"

definition till_late :: db where
  "till_late = the (run_calls till_open ''r1'' [SaleCall 50 (Some ''s1'') ''u1'' 140 ''m1''])"

definition till_used :: db where
  "till_used = till_new
     \<lparr>cashMovements :=
        [\<lparr>cm_id = ''m9'', cm_cashRegisterId = ''r1'', cm_type = SALE, cm_amount = 50,
          cm_description = Some ''Sale transaction'', cm_reference = Some ''s0'',
          cm_userId = ''u1'', cm_createdAt = 100\<rparr>]\<rparr>"

definition till_reopened :: db where
  "till_reopened = snd (openCashRegister till_used ''r1'' 20 ''u1'' 100 101 ''m0'')"

text \<open>A shop with one product in stock, the ledger accounts of a cash sale, and a sale request.\<close>

definition shop_example :: db where
  "shop_example = ledger_two_accounts
     \<lparr>products := [\<lparr>pr_id = ''p1'', pr_name = ''Pen'', pr_sku = ''PEN'', pr_barcode = None,
                     pr_price = 5, pr_stock = 10, pr_isActive = True\<rparr>]\<rparr>"

definition sale_request :: "string \<Rightarrow> SaleData" where
  "sale_request paymentMethod =
     \<lparr>sd_items = [\<lparr>it_productId = Some ''p1'', it_sku = None, it_barcode = None,
                    it_quantity = 2, it_unitPrice = None\<rparr>],
      sd_customerId = None, sd_userId = ''u1'', sd_discount = None, sd_discountType = None,
      sd_tax = None, sd_paymentMethod = paymentMethod, sd_paymentAmount = 10\<rparr>"

definition return_example :: Return where
  "return_example =
     \<lparr>ret_id = ''ret1'', ret_userId = ''u1'', ret_total = 10,
      ret_items = [\<lparr>pi_productId = ''p1'', pi_quantity = 2, pi_unitPrice = 5, pi_total = 10\<rparr>]\<rparr>"

text \<open>
  The outcome of that request paid by card: the stored sale, the payment summary and the
  store after the business transaction; and the store after the goods came back.
\<close>

definition shop_sale :: Sale where
  "shop_sale = \<lparr>sale_id = ''sale1'', sale_customerId = None, sale_userId = ''u1'',
                sale_total = 10, sale_tax = 0, sale_discount = 0,
                sale_items = [\<lparr>pi_productId = ''p1'', pi_quantity = 2, pi_unitPrice = 5,
                               pi_total = 10\<rparr>]\<rparr>"

definition shop_payment :: Payment where
  "shop_payment = \<lparr>pay_method = ''card'', pay_amount = 10, pay_change = 0, pay_subtotal = 10,
                   pay_discountAmount = 0, pay_tax = 0\<rparr>"

definition shop_sold :: db where
  "shop_sold = shop_example
     \<lparr>products := [\<lparr>pr_id = ''p1'', pr_name = ''Pen'', pr_sku = ''PEN'', pr_barcode = None,
                     pr_price = 5, pr_stock = 8, pr_isActive = True\<rparr>],
      sales := [shop_sale]\<rparr>"

definition shop_refunded :: db where
  "shop_refunded = shop_example\<lparr>sales := [shop_sale]\<rparr>"

section \<open>The concrete ledgers, evaluated\<close>

lemmas account_defs = accountModel_findById_def accountModel_findByCode_def
  accountModel_create_def accountModel_updateById_def createAccount_def updateAccountById_def
  apply_patch_def truthy_def Let_def

lemma ledger_two_accounts_eq:
  "ledger_two_accounts = empty_db
     \<lparr>users := [''u1''],
      accounts :=
        [\<lparr>a_id = ''a1'', a_code = ''1001'', a_name = ''Cash'', a_type = ASSET,
          a_parentId = None, a_isActive = True\<rparr>,
         \<lparr>a_id = ''a2'', a_code = ''4000'', a_name = ''Sales Revenue'', a_type = REVENUE,
          a_parentId = None, a_isActive = True\<rparr>]\<rparr>"
  by (simp add: ledger_two_accounts_def account_defs cash_account_data_def
      revenue_account_data_def empty_db_def)

lemma cash_code: "getCashAccountCode ''cash'' = JsString ''1001''"
  by (simp add: getCashAccountCode_def accountCodes_def)

lemma ledger_posted_eq:
  "ledger_posted = ledger_two_accounts
     \<lparr>journalEntries :=
        [\<lparr>je_id = ''e1'', je_date = 10, je_description = ''Sale transaction - s1'',
          je_debitAccountId = ''a1'', je_creditAccountId = ''a2'', je_amount = 100,
          je_userId = ''u1''\<rparr>]\<rparr>"
  by (simp add: ledger_posted_def createSaleJournalEntries_def cash_code post_pair_def
      journalService_createJournalEntry_def journalModel_create_def
      ledger_two_accounts_eq account_defs empty_db_def)

lemma ledger_deactivated_eq:
  "ledger_deactivated = empty_db
     \<lparr>users := [''u1''],
      accounts :=
        [\<lparr>a_id = ''a1'', a_code = ''1001'', a_name = ''Cash'', a_type = ASSET,
          a_parentId = None, a_isActive = True\<rparr>,
         \<lparr>a_id = ''a2'', a_code = ''4000'', a_name = ''Sales Revenue'', a_type = REVENUE,
          a_parentId = None, a_isActive = False\<rparr>],
      journalEntries :=
        [\<lparr>je_id = ''e1'', je_date = 10, je_description = ''Sale transaction - s1'',
          je_debitAccountId = ''a1'', je_creditAccountId = ''a2'', je_amount = 100,
          je_userId = ''u1''\<rparr>]\<rparr>"
  by (simp add: ledger_deactivated_def ledger_posted_eq ledger_two_accounts_eq
      deactivate_patch_def account_defs empty_db_def)

section \<open>Account balances\<close>

lemma foldl_plus:
  "foldl (\<lambda>sum entry. sum + f entry) a xs = (a :: real) + sum_list (map f xs)"
  by (induction xs arbitrary: a) simp_all

text \<open>
  \<^verbatim>\<open>accountModel.calculateBalance\<close>, the function behind the chart-of-accounts balance
  query and the trial balance, returns the raw sums over the period and their raw
  difference.
\<close>

lemma calculateBalance_raw:
  "accountModel_calculateBalance s accountId startDate endDate =
     \<lparr>debit = sum_list (map je_amount (filter (\<lambda>e. je_debitAccountId e = accountId \<and>
                  dateFilter startDate endDate (je_date e)) (journalEntries s))),
      credit = sum_list (map je_amount (filter (\<lambda>e. je_creditAccountId e = accountId \<and>
                  dateFilter startDate endDate (je_date e)) (journalEntries s))),
      balance = sum_list (map je_amount (filter (\<lambda>e. je_debitAccountId e = accountId \<and>
                  dateFilter startDate endDate (je_date e)) (journalEntries s)))
              - sum_list (map je_amount (filter (\<lambda>e. je_creditAccountId e = accountId \<and>
                  dateFilter startDate endDate (je_date e)) (journalEntries s)))\<rparr>"
  by (simp add: accountModel_calculateBalance_def Let_def foldl_plus)

text \<open>
  C1. The claim: \<^verbatim>\<open>journalService.getAccountBalance(accountId, from, to)\<close> returns
  \<^verbatim>\<open>{debit, credit, balance}\<close> with the raw sums over the entries dated in
  \<open>[from, to]\<close> and no sign adjustment. On \<open>ledger_example\<close>, for the revenue account
  \<open>a2\<close> and the period \<open>[0, 20]\<close>, that is debit 0, credit 200, balance -200, which is
  what \<^verbatim>\<open>accountModel.calculateBalance\<close> gives. The journal service returns the single
  number 500: the entry of date 50 is counted, and the difference is taken credit minus
  debit because the account is a revenue account.
\<close>

theorem journal_account_balance_ignores_period:
  "journalService_getAccountBalance ledger_example ''a2'' (Some 0) (Some 20) = Inr 500
   \<and> accountModel_calculateBalance ledger_example ''a2'' (Some 0) (Some 20)
       = \<lparr>debit = 0, credit = 200, balance = - 200\<rparr>"
  by (simp add: journalService_getAccountBalance_def journalModel_getAccountBalance_def
      accountModel_calculateBalance_def dateFilter_def ledger_example_def empty_db_def
      accountModel_findById_def)

section \<open>The normal-balance rule\<close>

lemma trialBalance_rows:
  "tb_accounts (foldl (trialBalance_step s asOfDate) tb as) =
     tb_accounts tb @ map (\<lambda>account.
        \<lparr>row_id = a_id account, row_code = a_code account, row_name = a_name account,
         row_type = a_type account,
         row_debit = debit (accountModel_calculateBalance s (a_id account) None (Some asOfDate)),
         row_credit = credit (accountModel_calculateBalance s (a_id account) None (Some asOfDate)),
         row_balance =
           (if a_type account = ASSET \<or> a_type account = EXPENSE
            then debit (accountModel_calculateBalance s (a_id account) None (Some asOfDate))
               - credit (accountModel_calculateBalance s (a_id account) None (Some asOfDate))
            else credit (accountModel_calculateBalance s (a_id account) None (Some asOfDate))
               - debit (accountModel_calculateBalance s (a_id account) None (Some asOfDate)))\<rparr>) as"
  by (induction as arbitrary: tb) (simp_all add: trialBalance_step_def Let_def)

text \<open>Every row of the trial balance follows the rule of the specification.\<close>

lemma trial_balance_rows_rule:
  assumes "row \<in> set (tb_accounts (getTrialBalance s asOfDate))"
  shows "row_balance row =
          (if row_type row = ASSET \<or> row_type row = EXPENSE
           then row_debit row - row_credit row else row_credit row - row_debit row)"
  using assms by (auto simp: getTrialBalance_def trialBalance_rows)

text \<open>
  \<^verbatim>\<open>journalModel.getAccountBalance\<close> takes the raw difference over all dates for ASSET
  and LIABILITY accounts and its negation for the other three types.
\<close>

lemma journal_signed_balance_rule:
  assumes "accountModel_findById s accountId = Some account"
  shows "journalModel_getAccountBalance s accountId =
           Inr (if a_type account = ASSET \<or> a_type account = LIABILITY
                then balance (accountModel_calculateBalance s accountId None None)
                else - balance (accountModel_calculateBalance s accountId None None))"
  using assms
  by (simp add: journalModel_getAccountBalance_def calculateBalance_raw dateFilter_def Let_def)

text \<open>
  C2. The claim: every place that reports a signed balance uses debit minus credit for
  ASSET and EXPENSE and credit minus debit for LIABILITY, EQUITY and REVENUE. The trial
  balance does. \<^verbatim>\<open>journalModel.getAccountBalance\<close> branches on ASSET or LIABILITY
  instead: on \<open>ledger_example\<close> the liability \<open>a3\<close> (credited 40) and the expense
  \<open>a4\<close> (debited 40) both have the normal balance 40 in the trial balance, and the
  journal engine reports -40 for each.
\<close>

theorem signed_balance_rules_disagree:
  "journalModel_getAccountBalance ledger_example ''a3'' = Inr (- 40)
   \<and> journalModel_getAccountBalance ledger_example ''a4'' = Inr (- 40)
   \<and> map (\<lambda>r. (row_id r, row_type r, row_balance r))
        (tb_accounts (getTrialBalance ledger_example 100))
       = [(''a1'', ASSET, 500), (''a3'', LIABILITY, 40),
          (''a2'', REVENUE, 500), (''a4'', EXPENSE, 40)]"
  by (simp add: journalModel_getAccountBalance_def getTrialBalance_def trialBalance_step_def
      accountModel_findAllActive_def order_by_type_code_def account_le_def
      accountModel_calculateBalance_def dateFilter_def
      ledger_example_def empty_db_def accountModel_findById_def)

section \<open>The trial balance totals\<close>

lemma trialBalance_totals:
  "totals (foldl (trialBalance_step s asOfDate) tb as) =
     \<lparr>totals_debit = totals_debit (totals tb) + sum_list (map (\<lambda>account.
          debit (accountModel_calculateBalance s (a_id account) None (Some asOfDate))) as),
      totals_credit = totals_credit (totals tb) + sum_list (map (\<lambda>account.
          credit (accountModel_calculateBalance s (a_id account) None (Some asOfDate))) as)\<rparr>"
  by (induction as arbitrary: tb) (simp_all add: trialBalance_step_def Let_def add.assoc)

text \<open>Summing per account and then over the accounts counts each entry once, when ids are a key.\<close>

lemma sum_one_key:
  "distinct (map f as) \<Longrightarrow> k \<in> f ` set as
   \<Longrightarrow> sum_list (map (\<lambda>a. if f a = k then c else 0) as) = (c :: real)"
proof (induction as)
  case Nil
  then show ?case by simp
next
  case (Cons a as)
  show ?case
  proof (cases "f a = k")
    case True
    with Cons.prems have "k \<notin> f ` set as" by auto
    then have "sum_list (map (\<lambda>a. if f a = k then c else 0) as) = 0"
      by (induction as) auto
    with True show ?thesis by simp
  next
    case False
    with Cons show ?thesis by auto
  qed
qed

lemma sum_by_key:
  assumes d: "distinct (map f as)"
    and r: "\<forall>e \<in> set es. P e \<longrightarrow> key e \<in> f ` set as"
  shows "sum_list (map (\<lambda>a. sum_list (map amt (filter (\<lambda>e. key e = f a \<and> P e) es))) as)
         = (sum_list (map amt (filter P es)) :: real)"
  using r
proof (induction es)
  case Nil
  then show ?case by simp
next
  case (Cons e es)
  have split: "sum_list (map (\<lambda>a. sum_list (map amt (filter (\<lambda>e. key e = f a \<and> P e) (e # es)))) as)
      = sum_list (map (\<lambda>a. if f a = key e then (if P e then amt e else 0) else 0) as)
        + sum_list (map (\<lambda>a. sum_list (map amt (filter (\<lambda>e. key e = f a \<and> P e) es))) as)"
    by (induction as) (auto simp: algebra_simps)
  have one: "sum_list (map (\<lambda>a. if f a = key e then (if P e then amt e else 0) else 0) as)
      = (if P e then amt e else 0)"
  proof (cases "P e")
    case True
    with Cons.prems have "key e \<in> f ` set as" by simp
    from sum_one_key[OF d this, of "amt e"] True show ?thesis by simp
  next
    case False
    then show ?thesis by (induction as) auto
  qed
  from Cons have ih: "sum_list (map (\<lambda>a. sum_list (map amt (filter (\<lambda>e. key e = f a \<and> P e) es))) as)
         = sum_list (map amt (filter P es))" by simp
  show ?case unfolding split one ih by simp
qed

text \<open>
  When account ids are a key and every entry dated up to \<open>asOfDate\<close> names an active
  account on each side, both grand totals are the sum of the amounts of those entries
  (for exact amounts: the two totals add the same amounts in different orders).
\<close>

lemma set_insert_ordered: "set (insert_ordered a bs) = insert a (set bs)"
  by (induction bs) auto

lemma set_order_by_type_code: "set (order_by_type_code as) = set as"
  by (induction as) (simp_all add: order_by_type_code_def set_insert_ordered)

lemma distinct_insert_ordered:
  "distinct (map f (insert_ordered a bs)) = (f a \<notin> f ` set bs \<and> distinct (map f bs))"
  by (induction bs) (auto simp: set_insert_ordered)

lemma distinct_order_by_type_code:
  "distinct (map f as) \<Longrightarrow> distinct (map f (order_by_type_code as))"
proof (induction as)
  case Nil
  then show ?case by (simp add: order_by_type_code_def)
next
  case (Cons a as)
  then have "distinct (map f (order_by_type_code as))" and "f a \<notin> f ` set as" by auto
  then show ?case
    using set_order_by_type_code[of as]
    by (simp add: order_by_type_code_def distinct_insert_ordered)
qed

lemma trial_balance_totals_equal:
  assumes pk: "distinct (map a_id (accounts s))"
    and refs: "\<forall>e \<in> set (journalEntries s). je_date e \<le> asOfDate \<longrightarrow>
                 (\<exists>a \<in> set (accounts s). a_id a = je_debitAccountId e \<and> a_isActive a)
               \<and> (\<exists>a \<in> set (accounts s). a_id a = je_creditAccountId e \<and> a_isActive a)"
  shows "totals (getTrialBalance s asOfDate) =
           \<lparr>totals_debit = sum_list (map je_amount
                (filter (\<lambda>e. je_date e \<le> asOfDate) (journalEntries s))),
            totals_credit = sum_list (map je_amount
                (filter (\<lambda>e. je_date e \<le> asOfDate) (journalEntries s)))\<rparr>"
proof -
  let ?as = "accountModel_findAllActive s"
  have d: "distinct (map a_id ?as)"
    using pk
    by (simp add: accountModel_findAllActive_def distinct_order_by_type_code
        distinct_map_filter)
  have rd: "\<forall>e \<in> set (journalEntries s). je_date e \<le> asOfDate \<longrightarrow> je_debitAccountId e \<in> a_id ` set ?as"
    using refs by (force simp: accountModel_findAllActive_def set_order_by_type_code)
  have rc: "\<forall>e \<in> set (journalEntries s). je_date e \<le> asOfDate \<longrightarrow> je_creditAccountId e \<in> a_id ` set ?as"
    using refs by (force simp: accountModel_findAllActive_def set_order_by_type_code)
  show ?thesis
    using sum_by_key[OF d rd, of je_amount] sum_by_key[OF d rc, of je_amount]
    by (simp add: getTrialBalance_def trialBalance_totals calculateBalance_raw dateFilter_def)
qed

text \<open>
  C3. The claim: in every reachable ledger the grand totals of the trial balance are
  equal. \<open>ledger_deactivated\<close> is reached from the empty store by two
  \<^verbatim>\<open>createAccount\<close> calls, one posted cash sale of 100 and one
  \<^verbatim>\<open>updateAccountById\<close> with \<^verbatim>\<open>{isActive: false}\<close> on the revenue account; every call
  succeeds. The totals run over the active accounts only, so the credit side of the
  sale is no longer counted: debit 100, credit 0.
\<close>

theorem trial_balance_unbalanced_after_deactivation:
  "fst (updateAccountById ledger_posted ''a2'' deactivate_patch)
     = Inr \<lparr>a_id = ''a2'', a_code = ''4000'', a_name = ''Sales Revenue'', a_type = REVENUE,
            a_parentId = None, a_isActive = False\<rparr>
   \<and> totals (getTrialBalance ledger_deactivated 20)
     = \<lparr>totals_debit = 100, totals_credit = 0\<rparr>"
proof -
  have "fst (updateAccountById ledger_posted ''a2'' deactivate_patch)
     = Inr \<lparr>a_id = ''a2'', a_code = ''4000'', a_name = ''Sales Revenue'', a_type = REVENUE,
            a_parentId = None, a_isActive = False\<rparr>"
    by (simp add: ledger_posted_eq ledger_two_accounts_eq deactivate_patch_def account_defs
        empty_db_def)
  moreover have "totals (getTrialBalance ledger_deactivated 20)
     = \<lparr>totals_debit = 100, totals_credit = 0\<rparr>"
    by (simp add: ledger_deactivated_eq getTrialBalance_def trialBalance_step_def
        accountModel_findAllActive_def order_by_type_code_def
        accountModel_calculateBalance_def dateFilter_def empty_db_def Let_def)
  ultimately show ?thesis by simp
qed

section \<open>Deactivating an account\<close>

text \<open>
  C9, as claimed: an account with any child account cannot be deactivated. In
  \<open>tree_example\<close> the account \<open>p\<close> has the child \<open>c\<close>, which is inactive;
  \<^verbatim>\<open>getChildren\<close> selects active children only, and the deactivation of \<open>p\<close> succeeds.
\<close>

theorem deactivate_with_inactive_child_succeeds:
  "a_parentId (accounts tree_example ! 1) = Some ''p''
   \<and> fst (deleteAccountById tree_example ''p'')
       = Inr \<lparr>a_id = ''p'', a_code = ''1000'', a_name = ''Assets'', a_type = ASSET,
              a_parentId = None, a_isActive = False\<rparr>"
  by (simp add: tree_example_def empty_db_def deleteAccountById_def accountModel_getChildren_def
      accountModel_hasJournalEntries_def accountModel_deleteById_def accountModel_findById_def)

text \<open>
  C9, amended: an account that has an active child account, or a journal entry that
  names it on the debit or the credit side (whatever the entry's date),
  \<^verbatim>\<open>deleteAccountById\<close> fails and leaves the store as it was. An existing account with no
  active child and no entry is deactivated: its row stays, with \<^verbatim>\<open>isActive\<close> false, and
  no other row changes.
\<close>

theorem deactivate_guard:
  "((\<exists>c \<in> set (accounts s). a_parentId c = Some accountId \<and> a_isActive c)
     \<or> (\<exists>e \<in> set (journalEntries s).
           je_debitAccountId e = accountId \<or> je_creditAccountId e = accountId)
     \<longrightarrow> (\<exists>msg. deleteAccountById s accountId = (Inl msg, s)))
   \<and> (\<not> (\<exists>c \<in> set (accounts s). a_parentId c = Some accountId \<and> a_isActive c)
      \<and> \<not> (\<exists>e \<in> set (journalEntries s).
               je_debitAccountId e = accountId \<or> je_creditAccountId e = accountId)
      \<and> accountModel_findById s accountId = Some a
     \<longrightarrow> deleteAccountById s accountId =
          (Inr (a\<lparr>a_isActive := False\<rparr>),
           s\<lparr>accounts := map (\<lambda>x. if a_id x = accountId then x\<lparr>a_isActive := False\<rparr> else x)
                              (accounts s)\<rparr>))"
proof -
  have ch: "(accountModel_getChildren s accountId \<noteq> []) =
        (\<exists>c \<in> set (accounts s). a_parentId c = Some accountId \<and> a_isActive c)"
    by (auto simp: accountModel_getChildren_def filter_empty_conv)
  have en: "accountModel_hasJournalEntries s accountId =
        (\<exists>e \<in> set (journalEntries s).
           je_debitAccountId e = accountId \<or> je_creditAccountId e = accountId)"
    by (auto simp: accountModel_hasJournalEntries_def Let_def filter_empty_conv)
  show ?thesis
    unfolding ch[symmetric] en[symmetric]
    by (auto simp: deleteAccountById_def Let_def accountModel_deleteById_def)
qed

text \<open>
  The guard at work: the cash account of \<open>ledger_example\<close> has entries and stays as it
  is; the cash account of \<open>ledger_two_accounts\<close> has none and is switched off, both
  rows remaining.
\<close>

theorem deactivate_guard_witness:
  "(\<exists>msg. deleteAccountById ledger_example ''a1'' = (Inl msg, ledger_example))
   \<and> a_isActive (the (accountModel_findById ledger_two_accounts ''a1''))
   \<and> \<not> a_isActive (the (accountModel_findById
                          (snd (deleteAccountById ledger_two_accounts ''a1'')) ''a1''))
   \<and> length (accounts (snd (deleteAccountById ledger_two_accounts ''a1''))) = 2"
proof -
  let ?a = "\<lparr>a_id = ''a1'', a_code = ''1001'', a_name = ''Cash'', a_type = ASSET,
             a_parentId = None, a_isActive = True\<rparr>"
  have e: "\<exists>e \<in> set (journalEntries ledger_example).
             je_debitAccountId e = ''a1'' \<or> je_creditAccountId e = ''a1''"
    by (simp add: ledger_example_def empty_db_def)
  have f: "accountModel_findById ledger_two_accounts ''a1'' = Some ?a"
    by (simp add: ledger_two_accounts_eq accountModel_findById_def empty_db_def)
  have n: "\<not> (\<exists>c \<in> set (accounts ledger_two_accounts). a_parentId c = Some ''a1'' \<and> a_isActive c)"
      "\<not> (\<exists>e \<in> set (journalEntries ledger_two_accounts).
             je_debitAccountId e = ''a1'' \<or> je_creditAccountId e = ''a1'')"
    by (simp_all add: ledger_two_accounts_eq empty_db_def)
  from deactivate_guard[of ledger_example "''a1''"] e
  have 1: "\<exists>msg. deleteAccountById ledger_example ''a1'' = (Inl msg, ledger_example)" by blast
  from deactivate_guard[of ledger_two_accounts "''a1''" ?a] n f
  have 2: "deleteAccountById ledger_two_accounts ''a1'' =
          (Inr (?a\<lparr>a_isActive := False\<rparr>),
           ledger_two_accounts\<lparr>accounts :=
              map (\<lambda>x. if a_id x = ''a1'' then x\<lparr>a_isActive := False\<rparr> else x)
                  (accounts ledger_two_accounts)\<rparr>)" by blast
  show ?thesis using 1 f
    by (simp add: 2) (simp add: accountModel_findById_def ledger_two_accounts_eq empty_db_def)
qed

section \<open>Journal entries are never rewritten\<close>

lemma journalModel_create_appends:
  "\<exists>new. journalEntries (snd (journalModel_create s d i)) = journalEntries s @ new"
  by (simp add: journalModel_create_def Let_def)

lemma createJournalEntry_appends:
  "\<exists>new. journalEntries (snd (journalService_createJournalEntry s d i)) = journalEntries s @ new"
  using journalModel_create_appends[of s d i]
  by (simp add: journalService_createJournalEntry_def split: option.splits)

lemma post_pair_appends:
  "\<exists>new. journalEntries (snd (post_pair s c1 c2 msg mk i)) = journalEntries s @ new"
  using createJournalEntry_appends
  by (simp add: post_pair_def split: sum.splits option.splits)

text \<open>
  C6. Whatever operation of the journal service is called, the table of journal entries
  afterwards is the table before, followed by the rows the call added: every entry that
  existed is still there, in its place, with every field as it was. The update and
  delete operations validate their input and then fail on the missing model method.
\<close>

theorem journal_entries_only_appended:
  "\<exists>new. journalEntries (journal_exec s call) = journalEntries s @ new"
proof (cases call)
  case (CreateJournalEntry d i)
  then show ?thesis using createJournalEntry_appends by simp
next
  case (CreateSaleJournalEntries a b c d e f)
  then show ?thesis using post_pair_appends by (simp add: createSaleJournalEntries_def)
next
  case (CreatePurchaseJournalEntries a b c d e)
  then show ?thesis using post_pair_appends by (simp add: createPurchaseJournalEntries_def)
next
  case (CreateReturnJournalEntries a b c d e f)
  then show ?thesis using post_pair_appends by (simp add: createReturnJournalEntries_def)
next
  case (UpdateJournalEntryById i u)
  then show ?thesis by (simp add: updateJournalEntryById_def)
qed (simp_all add: deleteJournalEntryById_def getJournalSummary_def)

section \<open>The concrete tills, evaluated\<close>

lemmas cash_defs = cashRegisterModel_findById_def cashRegisterModel_updateById_def
  cashMovementModel_create_def getCashRegisterById_def user_ref_ok_def
  cashRegisterModel_findOpenByUserId_def write_movement_def truthy_def Let_def

lemma till_open_eq:
  "till_open = empty_db
     \<lparr>users := [''u1'', ''u2''],
      cashRegisters := [\<lparr>cr_id = ''r1'', cr_name = ''Front'', cr_isOpen = True,
         cr_openingBalance = 100, cr_currentBalance = 100, cr_openedAt = Some 100,
         cr_closedAt = None, cr_openedById = Some ''u1'', cr_closedById = None\<rparr>],
      cashMovements := [\<lparr>cm_id = ''m0'', cm_cashRegisterId = ''r1'', cm_type = OPENING,
         cm_amount = 100, cm_description = Some ''Cash register opened'',
         cm_reference = None, cm_userId = ''u1'', cm_createdAt = 101\<rparr>]\<rparr>"
  by (simp add: till_open_def till_new_def closed_register_def openCashRegister_def
      cash_defs empty_db_def)

lemma till_open_result:
  "fst (openCashRegister till_new ''r1'' 100 ''u1'' 100 101 ''m0'')
     = Inr \<lparr>cr_id = ''r1'', cr_name = ''Front'', cr_isOpen = True,
         cr_openingBalance = 100, cr_currentBalance = 100, cr_openedAt = Some 100,
         cr_closedAt = None, cr_openedById = Some ''u1'', cr_closedById = None\<rparr>"
  by (simp add: till_new_def closed_register_def openCashRegister_def cash_defs empty_db_def)

lemma till_busy_run:
  "run_calls till_open ''r1'' till_calls = Some (empty_db
     \<lparr>users := [''u1'', ''u2''],
      cashRegisters := [\<lparr>cr_id = ''r1'', cr_name = ''Front'', cr_isOpen = True,
         cr_openingBalance = 100, cr_currentBalance = 120, cr_openedAt = Some 100,
         cr_closedAt = None, cr_openedById = Some ''u1'', cr_closedById = None\<rparr>],
      cashMovements := [\<lparr>cm_id = ''m0'', cm_cashRegisterId = ''r1'', cm_type = OPENING,
         cm_amount = 100, cm_description = Some ''Cash register opened'',
         cm_reference = None, cm_userId = ''u1'', cm_createdAt = 101\<rparr>,
        \<lparr>cm_id = ''m1'', cm_cashRegisterId = ''r1'', cm_type = SALE,
         cm_amount = 50, cm_description = Some ''Sale transaction'',
         cm_reference = Some ''s1'', cm_userId = ''u1'', cm_createdAt = 110\<rparr>,
        \<lparr>cm_id = ''m2'', cm_cashRegisterId = ''r1'', cm_type = WITHDRAWAL,
         cm_amount = 30, cm_description = Some ''Cash withdrawal'',
         cm_reference = None, cm_userId = ''u1'', cm_createdAt = 120\<rparr>]\<rparr>)"
  by (simp add: till_calls_def till_open_eq recordSale_def recordWithdrawal_def
      cash_defs empty_db_def)



section \<open>The expected balance of a register that was never opened\<close>

text \<open>
  C10. For a register whose \<^verbatim>\<open>openedAt\<close> is unset, \<^verbatim>\<open>calculateExpectedBalance\<close> returns
  0 and does not fail; the result is the same whatever the movement log holds, so the
  log plays no part in it.
\<close>

theorem never_opened_expected_zero:
  assumes "cashRegisterModel_findById s registerId = Some r"
    and "cr_openedAt r = None"
  shows "calculateExpectedBalance (s\<lparr>cashMovements := ms\<rparr>) registerId now = Inr 0"
  using assms
  by (simp add: calculateExpectedBalance_def getCashRegisterById_def
      cashRegisterModel_findById_def)

text \<open>
  The register of \<open>till_new\<close> was never opened: the expected balance is 0 with its own
  empty log and with the log of a busy session put in its place.
\<close>

theorem never_opened_expected_zero_witness:
  "cashRegisterModel_findById till_new ''r1'' = Some closed_register
   \<and> cr_openedAt closed_register = None
   \<and> calculateExpectedBalance (till_new\<lparr>cashMovements := cashMovements till_busy\<rparr>) ''r1'' 500
       = Inr 0
   \<and> calculateExpectedBalance till_new ''r1'' 500 = Inr 0"
proof -
  have f: "cashRegisterModel_findById till_new ''r1'' = Some closed_register"
    by (simp add: till_new_def cashRegisterModel_findById_def closed_register_def empty_db_def)
  have o: "cr_openedAt closed_register = None" by (simp add: closed_register_def)
  have same: "till_new\<lparr>cashMovements := cashMovements till_new\<rparr> = till_new" by simp
  show ?thesis
    using never_opened_expected_zero[OF f o, of "cashMovements till_busy" 500]
      never_opened_expected_zero[OF f o, of "cashMovements till_new" 500] f o
    by (simp add: same)
qed

section \<open>Closing a register\<close>



section \<open>The running balance and the replayed log\<close>

text \<open>Steps that leave the accumulator alone can be dropped from a fold, whatever the step is.\<close>

lemma foldl_skip:
  "(\<And>x b. x \<in> set xs \<Longrightarrow> \<not> Q x \<Longrightarrow> f b x = b)
   \<Longrightarrow> foldl f b xs = foldl f b (filter Q xs)"
  by (induction xs arbitrary: b) simp_all

lemma replay_noop: "\<not> effective m \<Longrightarrow> replay b m = b"
  by (cases "cm_type m") (simp_all add: effective_def)

lemma find_map_update:
  "find (\<lambda>x. key x = k) xs = Some r \<Longrightarrow> (\<And>x. key (f x) = key x)
   \<Longrightarrow> find (\<lambda>x. key x = k) (map (\<lambda>x. if key x = k then f x else x) xs) = Some (f r)"
  by (induction xs) (auto split: if_splits)

lemma find_map_all:
  "(\<And>x. key (f x) = key x)
   \<Longrightarrow> find (\<lambda>x. key x = k) (map f xs) = map_option f (find (\<lambda>x. key x = k) xs)"
  by (induction xs) auto

text \<open>
  When the log of the session is in the order of its stamps, sorting the window by
  \<^verbatim>\<open>createdAt\<close> and replaying it is replaying the log of the session as written.
\<close>

lemma expected_eq:
  assumes ne: "registerId \<noteq> []"
    and r: "cashRegisterModel_findById s registerId = Some r"
    and o: "cr_openedAt r = Some openedAt"
    and srt: "sorted (map cm_createdAt (session_log s registerId openedAt now))"
  shows "calculateExpectedBalance s registerId now
          = Inr (foldl replay (cr_openingBalance r) (session_log s registerId openedAt now))"
proof -
  let ?W = "\<lambda>m. openedAt \<le> cm_createdAt m \<and> cm_createdAt m \<le> now \<and>
                 (if truthy (Some registerId) then cm_cashRegisterId m = the (Some registerId)
                  else True)"
  let ?window = "sort_key cm_createdAt (filter ?W (cashMovements s))"
  have log: "filter effective (filter ?W (cashMovements s))
               = session_log s registerId openedAt now"
    using ne by (auto simp: session_log_def truthy_def intro: filter_cong)
  have "foldl replay (cr_openingBalance r) ?window
          = foldl replay (cr_openingBalance r) (filter effective ?window)"
    by (rule foldl_skip) (simp del: replay.simps add: replay_noop)
  also have "filter effective ?window
               = sort_key cm_createdAt (session_log s registerId openedAt now)"
    by (simp only: filter_sort log)
  also have "\<dots> = session_log s registerId openedAt now"
    using srt by (rule sort_key_id_if_sorted)
  finally have "foldl replay (cr_openingBalance r) ?window
      = foldl replay (cr_openingBalance r) (session_log s registerId openedAt now)" .
  then show ?thesis
    using r o
    by (simp add: calculateExpectedBalance_def getCashRegisterById_def Let_def
        cashMovementModel_findByDateRange_def)
qed

text \<open>The expected balance does not read \<^verbatim>\<open>currentBalance\<close>.\<close>

lemma expected_ignores_currentBalance:
  "calculateExpectedBalance (overwrite_currentBalance b s) registerId now
     = calculateExpectedBalance s registerId now"
proof -
  have f: "cashRegisterModel_findById (overwrite_currentBalance b s) registerId
      = map_option (\<lambda>r. r\<lparr>cr_currentBalance := b\<rparr>) (cashRegisterModel_findById s registerId)"
    by (simp add: cashRegisterModel_findById_def overwrite_currentBalance_def find_map_all)
  have m: "cashMovementModel_findByDateRange (overwrite_currentBalance b s) t1 t2 rid
      = cashMovementModel_findByDateRange s t1 t2 rid" for t1 t2 rid
    by (simp add: cashMovementModel_findByDateRange_def overwrite_currentBalance_def)
  show ?thesis
    by (cases "cashRegisterModel_findById s registerId")
       (simp_all add: calculateExpectedBalance_def getCashRegisterById_def f m Let_def
          split: option.splits)
qed

lemma write_movement_step:
  assumes w: "write_movement s md newBalance createdAt newId = (Inr m, s')"
    and r: "cashRegisterModel_findById s (md_cashRegisterId md) = Some r"
  shows "\<exists>mv. cashRegisterModel_findById s' (md_cashRegisterId md)
                = Some (r\<lparr>cr_currentBalance := newBalance\<rparr>)
            \<and> cashMovements s' = cashMovements s @ [mv]
            \<and> cm_cashRegisterId mv = md_cashRegisterId md \<and> cm_type mv = md_type md
            \<and> cm_amount mv = md_amount md \<and> cm_createdAt mv = createdAt"
proof -
  let ?f = "\<lambda>r. r\<lparr>cr_currentBalance := newBalance\<rparr>"
  have fm: "find (\<lambda>x. cr_id x = md_cashRegisterId md)
         (map (\<lambda>x. if cr_id x = md_cashRegisterId md then ?f x else x) (cashRegisters s))
          = Some (?f r)"
    using r find_map_update[of cr_id "md_cashRegisterId md" "cashRegisters s" r ?f]
    by (simp add: cashRegisterModel_findById_def)
  show ?thesis
    using w r fm
    by (auto simp: write_movement_def cashMovementModel_create_def
        cashRegisterModel_updateById_def cashRegisterModel_findById_def Let_def
        split: if_splits)
qed

lemma in_sessionE:
  assumes "in_session s registerId openedAt now"
  obtains r where "cashRegisterModel_findById s registerId = Some r"
    "cr_openedAt r = Some openedAt"
    "sorted (map cm_createdAt (session_log s registerId openedAt now))"
    "cr_currentBalance r
       = foldl replay (cr_openingBalance r) (session_log s registerId openedAt now)"
  using assms by (auto simp: in_session_def split: option.splits)

text \<open>
  One successful call, stamped inside the window and not before the movements already in
  the log: the log grows by the movement of the call, and \<^verbatim>\<open>currentBalance\<close> and the
  replay take the same step.
\<close>

lemma session_grows:
  assumes r: "cashRegisterModel_findById s registerId = Some r"
    "cr_openedAt r = Some openedAt"
    "sorted (map cm_createdAt (session_log s registerId openedAt now))"
    "cr_currentBalance r
       = foldl replay (cr_openingBalance r) (session_log s registerId openedAt now)"
    and f: "cashRegisterModel_findById s' registerId
             = Some (r\<lparr>cr_currentBalance := replay (cr_currentBalance r) mv\<rparr>)"
    and l: "cashMovements s' = cashMovements s @ [mv]"
    and mv: "effective mv" "cm_cashRegisterId mv = registerId" "cm_createdAt mv = t"
    and t: "openedAt \<le> t" "t \<le> now"
    and after: "\<forall>x \<in> set (session_log s registerId openedAt now). cm_createdAt x \<le> t"
  shows "in_session s' registerId openedAt now
       \<and> (\<forall>x \<in> set (session_log s' registerId openedAt now).
             x \<in> set (session_log s registerId openedAt now) \<or> cm_createdAt x = t)"
proof -
  have log: "session_log s' registerId openedAt now
               = session_log s registerId openedAt now @ [mv]"
    using l mv t by (simp add: session_log_def)
  have srt: "sorted (map cm_createdAt (session_log s' registerId openedAt now))"
    using r(3) after mv(3) by (simp add: log sorted_append)
  show ?thesis
    using f r(2) r(4) srt mv(3) by (auto simp: in_session_def log simp del: replay.simps)
qed

lemma run_call_step:
  assumes i: "in_session s registerId openedAt now"
    and c: "run_call s registerId c = (Inr m, s')"
    and t: "openedAt \<le> call_time c" "call_time c \<le> now"
    and after: "\<forall>x \<in> set (session_log s registerId openedAt now). cm_createdAt x \<le> call_time c"
  shows "in_session s' registerId openedAt now
       \<and> cr_currentBalance (the (cashRegisterModel_findById s' registerId))
         = apply_call (cr_currentBalance (the (cashRegisterModel_findById s registerId))) c
       \<and> cr_openingBalance (the (cashRegisterModel_findById s' registerId))
         = cr_openingBalance (the (cashRegisterModel_findById s registerId))
       \<and> (\<forall>x \<in> set (session_log s' registerId openedAt now).
             x \<in> set (session_log s registerId openedAt now) \<or> cm_createdAt x = call_time c)"
proof -
  from i obtain r where r: "cashRegisterModel_findById s registerId = Some r"
    "cr_openedAt r = Some openedAt"
    "sorted (map cm_createdAt (session_log s registerId openedAt now))"
    "cr_currentBalance r
       = foldl replay (cr_openingBalance r) (session_log s registerId openedAt now)"
    by (rule in_sessionE)
  have step: ?thesis
    if w: "write_movement s md newBalance (call_time c) newId = (Inr m, s')"
      and md: "md_cashRegisterId md = registerId"
      and ty: "md_type md \<noteq> OPENING" "md_type md \<noteq> CLOSING"
      and same: "\<And>mv. cm_type mv = md_type md \<Longrightarrow> cm_amount mv = md_amount md
                   \<Longrightarrow> replay (cr_currentBalance r) mv = newBalance"
      and ap: "apply_call (cr_currentBalance r) c = newBalance"
    for md newBalance newId
  proof -
    from write_movement_step[OF w] r(1) md obtain mv
      where f0: "cashRegisterModel_findById s' registerId
                   = Some (r\<lparr>cr_currentBalance := newBalance\<rparr>)"
        and l: "cashMovements s' = cashMovements s @ [mv]"
        and mvp: "cm_cashRegisterId mv = registerId" "cm_type mv = md_type md"
          "cm_amount mv = md_amount md" "cm_createdAt mv = call_time c"
      by auto
    have rp: "replay (cr_currentBalance r) mv = newBalance" using same mvp by blast
    have eff: "effective mv" using ty mvp by (simp add: effective_def)
    have f: "cashRegisterModel_findById s' registerId
             = Some (r\<lparr>cr_currentBalance := replay (cr_currentBalance r) mv\<rparr>)"
      using f0 by (simp only: rp)
    from session_grows[OF r f l eff mvp(1) mvp(4) t after] f0 r(1) ap
    show ?thesis by simp
  qed
  show ?thesis
  proof (cases c)
    case (Deposit amount description userId createdAt newId)
    with c r(1) obtain md
      where w: "write_movement s md (cr_currentBalance r + amount) createdAt newId = (Inr m, s')"
      and md: "md_cashRegisterId md = registerId" "md_type md = DEPOSIT" "md_amount md = amount"
      by (auto simp: recordDeposit_def getCashRegisterById_def split: if_splits)
    show ?thesis
      by (rule step[of md "cr_currentBalance r + amount" newId])
         (use w md Deposit in simp_all)
  next
    case (Withdrawal amount description userId createdAt newId)
    with c r(1) obtain md
      where w: "write_movement s md (cr_currentBalance r - amount) createdAt newId = (Inr m, s')"
      and md: "md_cashRegisterId md = registerId" "md_type md = WITHDRAWAL" "md_amount md = amount"
      by (auto simp: recordWithdrawal_def getCashRegisterById_def split: if_splits)
    show ?thesis
      by (rule step[of md "cr_currentBalance r - amount" newId])
         (use w md Withdrawal in simp_all)
  next
    case (SaleCall amount reference userId createdAt newId)
    with c r(1) obtain md
      where w: "write_movement s md (cr_currentBalance r + amount) createdAt newId = (Inr m, s')"
      and md: "md_cashRegisterId md = registerId" "md_type md = SALE" "md_amount md = amount"
      by (auto simp: recordSale_def getCashRegisterById_def split: if_splits)
    show ?thesis
      by (rule step[of md "cr_currentBalance r + amount" newId])
         (use w md SaleCall in simp_all)
  next
    case (ReturnCall amount reference userId createdAt newId)
    with c r(1) obtain md
      where w: "write_movement s md (cr_currentBalance r - amount) createdAt newId = (Inr m, s')"
      and md: "md_cashRegisterId md = registerId" "md_type md = RETURN" "md_amount md = amount"
      by (auto simp: recordReturn_def getCashRegisterById_def split: if_splits)
    show ?thesis
      by (rule step[of md "cr_currentBalance r - amount" newId])
         (use w md ReturnCall in simp_all)
  qed
qed

lemma run_calls_inv:
  assumes "in_session s registerId openedAt now"
    and "run_calls s registerId calls = Some s'"
    and "\<forall>c \<in> set calls. openedAt \<le> call_time c \<and> call_time c \<le> now"
    and "sorted_wrt (<) (map call_time calls)"
    and "\<forall>x \<in> set (session_log s registerId openedAt now).
           \<forall>c \<in> set calls. cm_createdAt x \<le> call_time c"
  shows "in_session s' registerId openedAt now
       \<and> cr_currentBalance (the (cashRegisterModel_findById s' registerId))
         = foldl apply_call (cr_currentBalance (the (cashRegisterModel_findById s registerId)))
             calls
       \<and> cr_openingBalance (the (cashRegisterModel_findById s' registerId))
         = cr_openingBalance (the (cashRegisterModel_findById s registerId))"
  using assms
proof (induction calls arbitrary: s)
  case Nil
  then show ?case by simp
next
  case (Cons c cs)
  from Cons.prems(2) obtain m s1 where c: "run_call s registerId c = (Inr m, s1)"
    and rest: "run_calls s1 registerId cs = Some s'"
    by (auto split: prod.splits sum.splits)
  from Cons.prems(3) have t: "openedAt \<le> call_time c" "call_time c \<le> now" by auto
  from Cons.prems(5)
  have after: "\<forall>x \<in> set (session_log s registerId openedAt now). cm_createdAt x \<le> call_time c"
    by auto
  from run_call_step[OF Cons.prems(1) c t after]
  have s1: "in_session s1 registerId openedAt now"
    and b1: "cr_currentBalance (the (cashRegisterModel_findById s1 registerId))
         = apply_call (cr_currentBalance (the (cashRegisterModel_findById s registerId))) c"
    and o1: "cr_openingBalance (the (cashRegisterModel_findById s1 registerId))
         = cr_openingBalance (the (cashRegisterModel_findById s registerId))"
    and l1: "\<forall>x \<in> set (session_log s1 registerId openedAt now).
             x \<in> set (session_log s registerId openedAt now) \<or> cm_createdAt x = call_time c"
    by auto
  from Cons.prems(4) have lt: "\<forall>c' \<in> set cs. call_time c < call_time c'"
    and srt: "sorted_wrt (<) (map call_time cs)"
    by auto
  have after1: "\<forall>x \<in> set (session_log s1 registerId openedAt now).
           \<forall>c' \<in> set cs. cm_createdAt x \<le> call_time c'"
    using l1 lt Cons.prems(5) by (auto simp: less_imp_le)
  from Cons.prems(3) have w: "\<forall>c \<in> set cs. openedAt \<le> call_time c \<and> call_time c \<le> now"
    by auto
  from Cons.IH[OF s1 rest w srt after1] b1 o1 show ?case by simp
qed

lemma open_establishes:
  assumes o: "openCashRegister s registerId openingBalance userId openedAt createdAt newId
                = (Inr opened, s1)"
    and old: "\<forall>m \<in> set (cashMovements s).
                cm_cashRegisterId m = registerId \<longrightarrow> cm_createdAt m < openedAt"
  shows "in_session s1 registerId openedAt now
       \<and> session_log s1 registerId openedAt now = []
       \<and> cr_currentBalance (the (cashRegisterModel_findById s1 registerId)) = openingBalance
       \<and> cr_openingBalance (the (cashRegisterModel_findById s1 registerId)) = openingBalance"
proof -
  let ?f = "\<lambda>r. r\<lparr>cr_isOpen := True, cr_openingBalance := openingBalance,
                            cr_currentBalance := openingBalance, cr_openedAt := Some openedAt,
                            cr_openedById := Some userId\<rparr>"
  from o obtain r where r: "cashRegisterModel_findById s registerId = Some r"
    by (auto simp: openCashRegister_def getCashRegisterById_def split: option.splits)
  have fm: "find (\<lambda>x. cr_id x = registerId)
         (map (\<lambda>x. if cr_id x = registerId then ?f x else x) (cashRegisters s)) = Some (?f r)"
    using r find_map_update[of cr_id registerId "cashRegisters s" r ?f]
    by (simp add: cashRegisterModel_findById_def)
  have z: "filter (\<lambda>m. effective m \<and> openedAt \<le> cm_createdAt m \<and> cm_createdAt m \<le> now \<and>
                     cm_cashRegisterId m = registerId) (cashMovements s) = []"
    using old by (auto simp: filter_empty_conv)
  show ?thesis
    using o r fm z
    by (auto simp: openCashRegister_def getCashRegisterById_def cashRegisterModel_updateById_def
        cashMovementModel_create_def cashRegisterModel_findById_def Let_def in_session_def
        session_log_def effective_def split: if_splits)
qed

lemma till_open_early:
  "run_calls till_open ''r1'' [SaleCall 50 (Some ''s1'') ''u1'' 99 ''m1''] = Some (empty_db
     \<lparr>users := [''u1'', ''u2''],
      cashRegisters := [\<lparr>cr_id = ''r1'', cr_name = ''Front'', cr_isOpen = True,
         cr_openingBalance = 100, cr_currentBalance = 150, cr_openedAt = Some 100,
         cr_closedAt = None, cr_openedById = Some ''u1'', cr_closedById = None\<rparr>],
      cashMovements := [\<lparr>cm_id = ''m0'', cm_cashRegisterId = ''r1'', cm_type = OPENING,
         cm_amount = 100, cm_description = Some ''Cash register opened'',
         cm_reference = None, cm_userId = ''u1'', cm_createdAt = 101\<rparr>,
        \<lparr>cm_id = ''m1'', cm_cashRegisterId = ''r1'', cm_type = SALE,
         cm_amount = 50, cm_description = Some ''Sale transaction'',
         cm_reference = Some ''s1'', cm_userId = ''u1'', cm_createdAt = 99\<rparr>]\<rparr>)"
  by (simp add: till_open_eq recordSale_def cash_defs empty_db_def)

lemma till_open_late:
  "run_calls till_open ''r1'' [SaleCall 50 (Some ''s1'') ''u1'' 140 ''m1''] = Some (empty_db
     \<lparr>users := [''u1'', ''u2''],
      cashRegisters := [\<lparr>cr_id = ''r1'', cr_name = ''Front'', cr_isOpen = True,
         cr_openingBalance = 100, cr_currentBalance = 150, cr_openedAt = Some 100,
         cr_closedAt = None, cr_openedById = Some ''u1'', cr_closedById = None\<rparr>],
      cashMovements := [\<lparr>cm_id = ''m0'', cm_cashRegisterId = ''r1'', cm_type = OPENING,
         cm_amount = 100, cm_description = Some ''Cash register opened'',
         cm_reference = None, cm_userId = ''u1'', cm_createdAt = 101\<rparr>,
        \<lparr>cm_id = ''m1'', cm_cashRegisterId = ''r1'', cm_type = SALE,
         cm_amount = 50, cm_description = Some ''Sale transaction'',
         cm_reference = Some ''s1'', cm_userId = ''u1'', cm_createdAt = 140\<rparr>]\<rparr>)"
  by (simp add: till_open_eq recordSale_def cash_defs empty_db_def)

lemma till_reopened_eq:
  "openCashRegister till_used ''r1'' 20 ''u1'' 100 101 ''m0'' =
    (Inr \<lparr>cr_id = ''r1'', cr_name = ''Front'', cr_isOpen = True,
         cr_openingBalance = 20, cr_currentBalance = 20, cr_openedAt = Some 100,
         cr_closedAt = None, cr_openedById = Some ''u1'', cr_closedById = None\<rparr>,
     empty_db
     \<lparr>users := [''u1'', ''u2''],
      cashRegisters := [\<lparr>cr_id = ''r1'', cr_name = ''Front'', cr_isOpen = True,
         cr_openingBalance = 20, cr_currentBalance = 20, cr_openedAt = Some 100,
         cr_closedAt = None, cr_openedById = Some ''u1'', cr_closedById = None\<rparr>],
      cashMovements := [\<lparr>cm_id = ''m9'', cm_cashRegisterId = ''r1'', cm_type = SALE,
         cm_amount = 50, cm_description = Some ''Sale transaction'',
         cm_reference = Some ''s0'', cm_userId = ''u1'', cm_createdAt = 100\<rparr>,
        \<lparr>cm_id = ''m0'', cm_cashRegisterId = ''r1'', cm_type = OPENING,
         cm_amount = 20, cm_description = Some ''Cash register opened'',
         cm_reference = None, cm_userId = ''u1'', cm_createdAt = 101\<rparr>]\<rparr>)"
  by (simp add: till_used_def till_new_def closed_register_def openCashRegister_def
      cash_defs empty_db_def)

text \<open>
  C4, as claimed: after any sequence of successful recording calls on an opened
  register the replayed balance equals \<^verbatim>\<open>currentBalance\<close>. The replay reads the
  movements stamped from \<^verbatim>\<open>openedAt\<close> to the moment of the question. A successful sale
  stamped before \<^verbatim>\<open>openedAt\<close>, or after that moment, is in \<^verbatim>\<open>currentBalance\<close> (150) and
  not in the replay (100); a sale of an earlier session stamped at the new \<^verbatim>\<open>openedAt\<close>
  is in the replay (70) and not in \<^verbatim>\<open>currentBalance\<close> (20).
\<close>

theorem expected_differs_outside_window:
  "run_calls till_open ''r1'' [SaleCall 50 (Some ''s1'') ''u1'' 99 ''m1''] = Some till_early
   \<and> calculateExpectedBalance till_early ''r1'' 130 = Inr 100
   \<and> map_option cr_currentBalance (cashRegisterModel_findById till_early ''r1'') = Some 150
   \<and> run_calls till_open ''r1'' [SaleCall 50 (Some ''s1'') ''u1'' 140 ''m1''] = Some till_late
   \<and> calculateExpectedBalance till_late ''r1'' 130 = Inr 100
   \<and> map_option cr_currentBalance (cashRegisterModel_findById till_late ''r1'') = Some 150
   \<and> map_sum id cr_currentBalance
        (fst (openCashRegister till_used ''r1'' 20 ''u1'' 100 101 ''m0'')) = Inr 20
   \<and> calculateExpectedBalance till_reopened ''r1'' 130 = Inr 70
   \<and> map_option cr_currentBalance (cashRegisterModel_findById till_reopened ''r1'') = Some 20"
proof -
  have e: "run_calls till_open ''r1'' [SaleCall 50 (Some ''s1'') ''u1'' 99 ''m1''] = Some till_early
   \<and> calculateExpectedBalance till_early ''r1'' 130 = Inr 100
   \<and> map_option cr_currentBalance (cashRegisterModel_findById till_early ''r1'') = Some 150"
    unfolding till_early_def till_open_early
    by (simp add: calculateExpectedBalance_def cashMovementModel_findByDateRange_def
        cash_defs empty_db_def)
  have l: "run_calls till_open ''r1'' [SaleCall 50 (Some ''s1'') ''u1'' 140 ''m1''] = Some till_late
   \<and> calculateExpectedBalance till_late ''r1'' 130 = Inr 100
   \<and> map_option cr_currentBalance (cashRegisterModel_findById till_late ''r1'') = Some 150"
    unfolding till_late_def till_open_late
    by (simp add: calculateExpectedBalance_def cashMovementModel_findByDateRange_def
        cash_defs empty_db_def)
  have r: "map_sum id cr_currentBalance
        (fst (openCashRegister till_used ''r1'' 20 ''u1'' 100 101 ''m0'')) = Inr 20
   \<and> calculateExpectedBalance till_reopened ''r1'' 130 = Inr 70
   \<and> map_option cr_currentBalance (cashRegisterModel_findById till_reopened ''r1'') = Some 20"
    unfolding till_reopened_def till_reopened_eq
    by (simp add: calculateExpectedBalance_def cashMovementModel_findByDateRange_def
        cash_defs empty_db_def)
  show ?thesis using e l r by simp
qed

text \<open>
  C4, amended. A register, its id not the empty text, is opened with some opening
  balance at the clock reading \<open>openedAt\<close>; the movements it had before are stamped
  before \<open>openedAt\<close>. A sequence of
  recording calls against it succeeds; their movements are stamped in strictly
  increasing order, not before \<open>openedAt\<close> and not after \<open>now\<close>, the moment the expected
  balance is computed. Then
  \<^item> the balance that \<^verbatim>\<open>calculateExpectedBalance\<close> returns equals the stored
    \<^verbatim>\<open>currentBalance\<close>;
  \<^item> it is the opening balance replayed over the log of the session: SALE and DEPOSIT
    added, RETURN and WITHDRAWAL subtracted, in the order written;
  \<^item> \<^verbatim>\<open>currentBalance\<close> is the opening balance with every call applied in turn;
  \<^item> the expected balance stays the same when \<^verbatim>\<open>currentBalance\<close> is overwritten with any
    other figure: it is computed from the log, not read from the field.
  Both figures come from the same additions and subtractions in the same order.
\<close>

theorem expected_equals_current:
  assumes "openCashRegister s0 registerId openingBalance userId openedAt createdAt newId
             = (Inr opened, s1)"
    and "run_calls s1 registerId calls = Some s2"
    and "registerId \<noteq> []"
    and "\<forall>m \<in> set (cashMovements s0).
           cm_cashRegisterId m = registerId \<longrightarrow> cm_createdAt m < openedAt"
    and "\<forall>c \<in> set calls. openedAt \<le> call_time c \<and> call_time c \<le> now"
    and "sorted_wrt (<) (map call_time calls)"
  shows "\<exists>r. cashRegisterModel_findById s2 registerId = Some r
           \<and> calculateExpectedBalance s2 registerId now = Inr (cr_currentBalance r)
           \<and> calculateExpectedBalance s2 registerId now
               = Inr (foldl replay openingBalance (session_log s2 registerId openedAt now))
           \<and> cr_currentBalance r = foldl apply_call openingBalance calls
           \<and> (\<forall>b. calculateExpectedBalance (overwrite_currentBalance b s2) registerId now
                    = Inr (cr_currentBalance r))"
proof -
  from open_establishes[OF assms(1) assms(4), of now]
  have i1: "in_session s1 registerId openedAt now"
    and l1: "session_log s1 registerId openedAt now = []"
    and b1: "cr_currentBalance (the (cashRegisterModel_findById s1 registerId)) = openingBalance"
    and o1: "cr_openingBalance (the (cashRegisterModel_findById s1 registerId)) = openingBalance"
    by auto
  have after: "\<forall>x \<in> set (session_log s1 registerId openedAt now).
           \<forall>c \<in> set calls. cm_createdAt x \<le> call_time c"
    by (simp add: l1)
  from run_calls_inv[OF i1 assms(2) assms(5) assms(6) after] b1 o1
  have i2: "in_session s2 registerId openedAt now"
    and b2: "cr_currentBalance (the (cashRegisterModel_findById s2 registerId))
         = foldl apply_call openingBalance calls"
    and o2: "cr_openingBalance (the (cashRegisterModel_findById s2 registerId)) = openingBalance"
    by auto
  from i2 obtain r where r: "cashRegisterModel_findById s2 registerId = Some r"
    "cr_openedAt r = Some openedAt"
    "sorted (map cm_createdAt (session_log s2 registerId openedAt now))"
    "cr_currentBalance r
       = foldl replay (cr_openingBalance r) (session_log s2 registerId openedAt now)"
    by (rule in_sessionE)
  have ob: "cr_openingBalance r = openingBalance"
    using o2 r(1) by simp
  from expected_eq[OF assms(3) r(1) r(2) r(3)] r b2 ob expected_ignores_currentBalance
  show ?thesis by simp
qed

text \<open>
  The session of \<open>till_busy\<close>: opened with 100 at time 100, a sale of 50 stamped 110 and
  a withdrawal of 30 stamped 120. At time 130 the replayed balance and \<^verbatim>\<open>currentBalance\<close>
  are both 120, and the replayed balance is still 120 when the field is set to 999.
\<close>

theorem expected_equals_current_witness:
  "calculateExpectedBalance till_busy ''r1'' 130 = Inr 120
   \<and> map_option cr_currentBalance (cashRegisterModel_findById till_busy ''r1'') = Some 120
   \<and> calculateExpectedBalance (overwrite_currentBalance 999 till_busy) ''r1'' 130 = Inr 120"
proof -
  let ?opened = "\<lparr>cr_id = ''r1'', cr_name = ''Front'', cr_isOpen = True,
         cr_openingBalance = 100, cr_currentBalance = 100, cr_openedAt = Some 100,
         cr_closedAt = None, cr_openedById = Some ''u1'', cr_closedById = None\<rparr>"
  have o: "openCashRegister till_new ''r1'' 100 ''u1'' 100 101 ''m0'' = (Inr ?opened, till_open)"
    using till_open_result by (simp add: till_open_def prod_eq_iff)
  have run: "run_calls till_open ''r1'' till_calls = Some till_busy"
    by (simp add: till_busy_def till_busy_run)
  have ne: "''r1'' \<noteq> []" by simp
  have old: "\<forall>m \<in> set (cashMovements till_new).
               cm_cashRegisterId m = ''r1'' \<longrightarrow> cm_createdAt m < 100"
    by (simp add: till_new_def empty_db_def)
  have times: "\<forall>c \<in> set till_calls. 100 \<le> call_time c \<and> call_time c \<le> 130"
    by (simp add: till_calls_def)
  have order: "sorted_wrt (<) (map call_time till_calls)"
    by (simp add: till_calls_def)
  from expected_equals_current[OF o run ne old times order]
  obtain r where r: "cashRegisterModel_findById till_busy ''r1'' = Some r"
    "calculateExpectedBalance till_busy ''r1'' 130 = Inr (cr_currentBalance r)"
    "cr_currentBalance r = foldl apply_call 100 till_calls"
    "\<And>b. calculateExpectedBalance (overwrite_currentBalance b till_busy) ''r1'' 130
            = Inr (cr_currentBalance r)"
    by blast
  have "cr_currentBalance r = 120" using r(3) by (simp add: till_calls_def)
  with r(1) r(2) r(4)[of 999] show ?thesis by simp
qed

section \<open>The posting rules\<close>

text \<open>The table of payment methods, and the default for a name that is not a member.\<close>

lemma cash_account_code_table:
  "getCashAccountCode ''cash'' = JsString ''1001''"
  "getCashAccountCode ''card'' = JsString ''1002''"
  "getCashAccountCode ''bank_transfer'' = JsString ''1002''"
  "getCashAccountCode ''check'' = JsString ''1003''"
  "getCashAccountCode ''digital_wallet'' = JsString ''1004''"
  by (simp_all add: getCashAccountCode_def accountCodes_def)

lemma cash_account_code_default:
  assumes "map_of accountCodes paymentMethod = None"
    and "paymentMethod \<notin> set Object_prototype_keys"
  shows "getCashAccountCode paymentMethod = JsString ''1001''"
  using assms by (simp add: getCashAccountCode_def)

lemma journalModel_create_success:
  assumes "journalModel_create s d i = (Inr e, s')"
  shows "e = \<lparr>je_id = i, je_date = ed_date d, je_description = ed_description d,
              je_debitAccountId = ed_debitAccountId d,
              je_creditAccountId = ed_creditAccountId d,
              je_amount = ed_amount d, je_userId = ed_userId d\<rparr>
         \<and> journalEntries s' = journalEntries s @ [e]"
  using assms by (auto simp: journalModel_create_def Let_def split: if_splits)

lemma createJournalEntry_success:
  assumes "journalService_createJournalEntry s d i = (Inr e, s')"
  shows "e = \<lparr>je_id = i, je_date = ed_date d, je_description = ed_description d,
              je_debitAccountId = ed_debitAccountId d,
              je_creditAccountId = ed_creditAccountId d,
              je_amount = ed_amount d, je_userId = ed_userId d\<rparr>
         \<and> journalEntries s' = journalEntries s @ [e]"
  using assms journalModel_create_success[of s d i e s']
  by (auto simp: journalService_createJournalEntry_def split: option.splits if_splits)

lemma post_pair_success:
  assumes "post_pair s c1 c2 msg mk i = (Inr e, s')"
  shows "\<exists>a b. accountModel_findByCode s c1 = Inr (Some a)
            \<and> accountModel_findByCode s c2 = Inr (Some b)
            \<and> je_debitAccountId e = ed_debitAccountId (mk a b)
            \<and> je_creditAccountId e = ed_creditAccountId (mk a b)
            \<and> je_amount e = ed_amount (mk a b)
            \<and> journalEntries s' = journalEntries s @ [e]"
  using assms
  by (auto simp: post_pair_def split: sum.splits option.splits
      dest!: createJournalEntry_success)

text \<open>
  A posted sale debits the account whose code \<^verbatim>\<open>getCashAccountCode\<close> selects and credits
  the account of code 4000, for the sale total; a posted purchase debits 1200 and
  credits 2000; a posted return debits 4000 and credits the selected cash account.
\<close>

lemma sale_posting_pair:
  assumes "createSaleJournalEntries s saleId total' paymentMethod userId now newId = (Inr e, s')"
  shows "\<exists>cashAccount revenueAccount.
           accountModel_findByCode s (getCashAccountCode paymentMethod) = Inr (Some cashAccount)
         \<and> accountModel_findByCode s (JsString ''4000'') = Inr (Some revenueAccount)
         \<and> je_debitAccountId e = a_id cashAccount
         \<and> je_creditAccountId e = a_id revenueAccount
         \<and> je_amount e = total'
         \<and> journalEntries s' = journalEntries s @ [e]"
  using post_pair_success[OF assms[unfolded createSaleJournalEntries_def Let_def]]
  by simp

lemma purchase_posting_pair:
  assumes "createPurchaseJournalEntries s purchaseId total' userId now newId = (Inr e, s')"
  shows "\<exists>inventoryAccount payableAccount.
           accountModel_findByCode s (JsString ''1200'') = Inr (Some inventoryAccount)
         \<and> accountModel_findByCode s (JsString ''2000'') = Inr (Some payableAccount)
         \<and> je_debitAccountId e = a_id inventoryAccount
         \<and> je_creditAccountId e = a_id payableAccount
         \<and> je_amount e = total'
         \<and> journalEntries s' = journalEntries s @ [e]"
  using post_pair_success[OF assms[unfolded createPurchaseJournalEntries_def Let_def]]
  by simp

lemma return_posting_pair:
  assumes "createReturnJournalEntries s returnId total' paymentMethod userId now newId
             = (Inr e, s')"
  shows "\<exists>cashAccount revenueAccount.
           accountModel_findByCode s (getCashAccountCode paymentMethod) = Inr (Some cashAccount)
         \<and> accountModel_findByCode s (JsString ''4000'') = Inr (Some revenueAccount)
         \<and> je_debitAccountId e = a_id revenueAccount
         \<and> je_creditAccountId e = a_id cashAccount
         \<and> je_amount e = total'
         \<and> journalEntries s' = journalEntries s @ [e]"
  using post_pair_success[OF assms[unfolded createReturnJournalEntries_def Let_def]]
  by simp

text \<open>
  \<^verbatim>\<open>processRefund\<close> reads the payment method from the sale object. A sale object
  without that property selects the cash account, whatever the sale was paid with.
\<close>

lemma absent_payment_method_is_cash:
  "getCashAccountCode (property_key None) = JsString ''1001''"
  by (simp add: property_key_def getCashAccountCode_def accountCodes_def
      Object_prototype_keys_def)

text \<open>
  C7. The claim sends every unknown payment method to the cash account 1001. The name
  \<^verbatim>\<open>constructor\<close> is not in the table, yet the lookup finds the member every object
  inherits, which is truthy: the default is not taken, the result is not an account
  code, the account lookup fails on it, and no entry is posted for the sale.
\<close>

theorem inherited_payment_method_not_defaulted:
  "getCashAccountCode ''constructor'' = JsInherited ''constructor''
   \<and> createSaleJournalEntries ledger_two_accounts ''s1'' 100 ''constructor'' ''u1'' 10 ''e1''
       = (Inl (Error ''Failed to find account by code''), ledger_two_accounts)"
  by (simp add: getCashAccountCode_def accountCodes_def Object_prototype_keys_def
      createSaleJournalEntries_def post_pair_def accountModel_findByCode_def)

section \<open>A failed posting does not undo the sale or the return\<close>

lemma journalModel_create_fail: "journalModel_create s d i = (Inl e, s') \<Longrightarrow> s' = s"
  by (auto simp: journalModel_create_def Let_def split: if_splits)

lemma createJournalEntry_fail: "journalService_createJournalEntry s d i = (Inl e, s') \<Longrightarrow> s' = s"
  by (auto simp: journalService_createJournalEntry_def split: option.splits if_splits
      dest: journalModel_create_fail)

lemma post_pair_fail: "post_pair s c1 c2 msg mk i = (Inl e, s') \<Longrightarrow> s' = s"
  by (auto simp: post_pair_def split: sum.splits option.splits dest: createJournalEntry_fail)

lemma updateProductStock_sales:
  "sales (snd (saleModel_updateProductStock s items)) = sales s"
  by (induction s items rule: saleModel_updateProductStock.induct) (auto split: option.splits)

lemma saleModel_create_adds:
  "saleModel_create s d i = (Inr sale, s') \<Longrightarrow> sale \<in> set (sales s')"
  by (auto simp: saleModel_create_def Let_def split: if_splits)

lemma business_sale_stored:
  assumes "createSale_business s saleData newId = (Inr (sale, t, payment), s1)"
  shows "sale \<in> set (sales s1)"
proof -
  from assms obtain sa items s' where c: "saleModel_create s sa newId = (Inr sale, s')"
      and u: "saleModel_updateProductStock s' items = (Inr (), s1)"
    by (auto simp: createSale_business_def Let_def split: if_splits sum.splits prod.splits)
  from saleModel_create_adds[OF c] updateProductStock_sales[of s' items] u
  show ?thesis by simp
qed

text \<open>
  C8. Once the business transaction of a sale exists (the sale is stored and the stock
  is updated), a posting that fails, for whatever reason, is caught: \<^verbatim>\<open>createSale\<close>
  returns the sale with its payment summary, the store is the one the business
  transaction left, and the sale is in it. Likewise, once the stock update of a refund
  is done, a failing posting leaves \<^verbatim>\<open>processRefund\<close> returning normally with the store
  the stock update left.
\<close>

theorem posting_failure_is_swallowed:
  "(createSale_business s saleData newId = (Inr (sale, total', payment), s1)
     \<and> fst (createSaleJournalEntries s1 (sale_id sale) total' (sd_paymentMethod saleData)
              (sd_userId saleData) now entryId) = Inl e
     \<longrightarrow> createSale s saleData newId now entryId
           = (Inr \<lparr>res_sale = sale, res_payment = payment\<rparr>, s1)
         \<and> sale \<in> set (sales s1))
   \<and> (updateProductStock s (ret_items returnObj) = (Inr (), s1')
     \<and> fst (createReturnJournalEntries s1' (ret_id returnObj) (ret_total returnObj)
              (property_key salePaymentMethod) (ret_userId returnObj) now entryId) = Inl e'
     \<longrightarrow> processRefund updateProductStock s returnObj salePaymentMethod now entryId
           = (Inr (), s1'))"
proof -
  have sale_fail: "snd (createSaleJournalEntries s1 a b c d f g) = s1"
    if "fst (createSaleJournalEntries s1 a b c d f g) = Inl e" for a b c d f g
    using that post_pair_fail unfolding createSaleJournalEntries_def Let_def
    by (metis prod.collapse)
  have ret_fail: "snd (createReturnJournalEntries s1' a b c d f g) = s1'"
    if "fst (createReturnJournalEntries s1' a b c d f g) = Inl e'" for a b c d f g
    using that post_pair_fail unfolding createReturnJournalEntries_def Let_def
    by (metis prod.collapse)
  show ?thesis
    using sale_fail ret_fail business_sale_stored
    by (auto simp: createSale_def processRefund_def Let_def)
qed

text \<open>
  A card sale of two pens in a shop whose ledger has no account 1002: the posting fails,
  the sale is returned and stored, the stock is 8, no entry is written. The refund of
  that sale by card goes the same way.
\<close>

lemma shop_example_eq:
  "shop_example = empty_db
     \<lparr>users := [''u1''],
      accounts :=
        [\<lparr>a_id = ''a1'', a_code = ''1001'', a_name = ''Cash'', a_type = ASSET,
          a_parentId = None, a_isActive = True\<rparr>,
         \<lparr>a_id = ''a2'', a_code = ''4000'', a_name = ''Sales Revenue'', a_type = REVENUE,
          a_parentId = None, a_isActive = True\<rparr>],
      products := [\<lparr>pr_id = ''p1'', pr_name = ''Pen'', pr_sku = ''PEN'', pr_barcode = None,
                     pr_price = 5, pr_stock = 10, pr_isActive = True\<rparr>]\<rparr>"
  by (simp add: shop_example_def ledger_two_accounts_eq empty_db_def)

lemma shop_business:
  "createSale_business shop_example (sale_request ''card'') ''sale1''
     = (Inr (shop_sale, 10, shop_payment), shop_sold)"
  by (simp add: createSale_business_def sale_request_def shop_example_eq shop_sale_def
      shop_payment_def shop_sold_def saleModel_create_def lookup_product_def unit_price_def
      productModel_findById_def truthy_def empty_db_def Let_def)

lemma shop_posting_fails:
  "fst (createSaleJournalEntries shop_sold ''sale1'' 10 ''card'' ''u1'' 10 ''e1'')
     = Inl (Error ''Required accounts not found for sale transaction'')"
  by (simp add: createSaleJournalEntries_def cash_account_code_table post_pair_def
      accountModel_findByCode_def shop_sold_def shop_example_eq empty_db_def)

lemma shop_restock:
  "returnModel_updateProductStock shop_sold (ret_items return_example)
     = (Inr (), shop_refunded)"
  by (simp add: shop_sold_def shop_refunded_def return_example_def productModel_findById_def
      shop_example_eq empty_db_def)

lemma shop_return_posting_fails:
  "fst (createReturnJournalEntries shop_refunded ''ret1'' 10 ''card'' ''u1'' 20 ''e2'')
     = Inl (Error ''Required accounts not found for return transaction'')"
  by (simp add: createReturnJournalEntries_def cash_account_code_table post_pair_def
      accountModel_findByCode_def shop_refunded_def shop_example_eq empty_db_def)

theorem posting_failure_is_swallowed_witness:
  "createSale shop_example (sale_request ''card'') ''sale1'' 10 ''e1''
     = (Inr \<lparr>res_sale = shop_sale, res_payment = shop_payment\<rparr>, shop_sold)
   \<and> shop_sale \<in> set (sales shop_sold)
   \<and> journalEntries shop_sold = []
   \<and> ReturnService_processRefund shop_sold return_example (Some ''card'') 20 ''e2''
     = (Inr (), shop_refunded)"
proof -
  have pm: "sd_paymentMethod (sale_request ''card'') = ''card''"
      "sd_userId (sale_request ''card'') = ''u1''" "sale_id shop_sale = ''sale1''"
    by (simp_all add: sale_request_def shop_sale_def)
  have rt: "ret_id return_example = ''ret1''" "ret_total return_example = 10"
      "ret_userId return_example = ''u1''" "property_key (Some ''card'') = ''card''"
    by (simp_all add: return_example_def property_key_def)
  from posting_failure_is_swallowed[where s = shop_example
      and saleData = "sale_request ''card''" and newId = "''sale1''" and sale = shop_sale
      and total' = 10 and payment = shop_payment and ?s1.0 = shop_sold and now = 10
      and entryId = "''e1''"
      and e = "Error ''Required accounts not found for sale transaction''"]
    shop_business shop_posting_fails pm
  have 1: "createSale shop_example (sale_request ''card'') ''sale1'' 10 ''e1''
     = (Inr \<lparr>res_sale = shop_sale, res_payment = shop_payment\<rparr>, shop_sold)
   \<and> shop_sale \<in> set (sales shop_sold)"
    by simp
  from posting_failure_is_swallowed[where s = shop_sold and now = 20 and entryId = "''e2''"
      and updateProductStock = returnModel_updateProductStock and returnObj = return_example
      and ?s1' = shop_refunded and salePaymentMethod = "Some ''card''"
      and e' = "Error ''Required accounts not found for return transaction''"]
    shop_restock shop_return_posting_fails rt
  have 2: "ReturnService_processRefund shop_sold return_example (Some ''card'') 20 ''e2''
     = (Inr (), shop_refunded)"
    by (simp add: ReturnService_processRefund_def)
  have 3: "journalEntries shop_sold = []"
    by (simp add: shop_sold_def shop_example_eq empty_db_def)
  show ?thesis using 1 2 3 by simp
qed

end
